theory Spec2Isabelle
  imports Complex_Main "HOL-Library.Word"
begin

section \<open>Conventions of the embedding\<close>

text \<open>
  The C++ sources are embedded as HOL functions over explicit object states.

  \<^item> In the object states a \<^verbatim>\<open>double\<close> is a \<^typ>\<open>real\<close>: arithmetic is exact,
    rounding, overflow and underflow of IEEE-754 are not part of that reading. Where IEEE
    arithmetic would leave the reals (a division by zero gives an infinity or a NaN)
    the run stops with the fault \<open>DivisionByZero\<close>. This reading serves the statements
    on what the constructors store and on which fields a call reads and writes. It does
    not give the values that the rounded arithmetic of the machine computes.
  \<^item> Where rounding decides, in the divisors of \<^verbatim>\<open>SetBlendingFunc\<close>, a
    \<^verbatim>\<open>double\<close> is a binary64 value of the type \<open>double\<close> below and every
    multiplication is rounded.
  \<^item> A heap array is a list; a read or a write outside of it is undefined behaviour in
    C++ and the fault \<open>OutOfBounds\<close> here.
  \<^item> A C++ \<^verbatim>\<open>for\<close> loop is a recursive function over its counter.
\<close>

datatype fault = OutOfBounds | DivisionByZero

definition load :: "'a list \<Rightarrow> nat \<Rightarrow> fault + 'a" where
  "load xs i = (if i < length xs then Inr (xs ! i) else Inl OutOfBounds)"

definition store :: "'a list \<Rightarrow> nat \<Rightarrow> 'a \<Rightarrow> fault + 'a list" where
  "store xs i x = (if i < length xs then Inr (xs[i := x]) else Inl OutOfBounds)"

definition load2 :: "'a list list \<Rightarrow> nat \<Rightarrow> nat \<Rightarrow> fault + 'a" where
  "load2 xss i j = (case load xss i of Inl e \<Rightarrow> Inl e | Inr row \<Rightarrow> load row j)"

definition fdiv :: "real \<Rightarrow> real \<Rightarrow> fault + real" where
  "fdiv x y = (if y = 0 then Inl DivisionByZero else Inr (x / y))"

text \<open>Sequencing of steps that may fault: the first fault ends the run.\<close>

definition andthen :: "fault + 'a \<Rightarrow> ('a \<Rightarrow> fault + 'b) \<Rightarrow> fault + 'b" where
  "andthen m f = (case m of Inl e \<Rightarrow> Inl e | Inr x \<Rightarrow> f x)"

text \<open>\<^verbatim>\<open>new double[n]\<close> yields \<open>n\<close> cells of indeterminate content; the content
  is a parameter \<open>junk\<close> of the allocation.\<close>

definition new_double :: "(nat \<Rightarrow> real) \<Rightarrow> nat \<Rightarrow> real list" where
  "new_double junk n = map junk [0..<n]"

section \<open>Turbulence variables: variable\_direct\_turbulent.cpp\<close>

text \<open>
  One grid point's turbulence variable. The members of \<^verbatim>\<open>CVariable\<close>
  (\<open>nDim\<close> to \<open>Solution_Min\<close>), of \<^verbatim>\<open>CTurbVariable\<close> (\<open>muT\<close>) and of
  \<^verbatim>\<open>CTurbSSTVariable\<close> (\<open>sigma_om2\<close> to \<open>CDkw\<close>) are the fields of one record;
  in an object of class \<^verbatim>\<open>CTurbSAVariable\<close> the last five are not present and
  never read.
\<close>

record turb_variable =
  nDim :: nat
  nVar :: nat
  Solution :: "real list"
  Solution_Old :: "real list"
  Gradient :: "real list list"
  Limiter :: "real list"
  Solution_Max :: "real list"
  Solution_Min :: "real list"
  muT :: real
  sigma_om2 :: real
  beta_star :: real
  F1 :: real
  F2 :: real
  CDkw :: real

subsection \<open>Constructors\<close>

text \<open>\<^verbatim>\<open>for (iVar = 0; iVar < nVar; iVar++) Limiter[iVar] = 0.0;\<close>\<close>

function Limiter_loop :: "nat \<Rightarrow> nat \<Rightarrow> real list \<Rightarrow> real list" where
  "Limiter_loop iVar n arr =
     (if iVar < n then Limiter_loop (Suc iVar) n (arr[iVar := 0]) else arr)"
  by pat_completeness auto
termination
  by (relation "measure (\<lambda>(iVar, n, arr). n - iVar)") auto

text \<open>\<^verbatim>\<open>for (iVar = 0; iVar < nVar; iVar++) { Solution_Max[iVar] = 0.0;
  Solution_Min[iVar] = 0.0; }\<close>\<close>

function MaxMin_loop :: "nat \<Rightarrow> nat \<Rightarrow> real list \<Rightarrow> real list \<Rightarrow> real list \<times> real list" where
  "MaxMin_loop iVar n smax smin =
     (if iVar < n then MaxMin_loop (Suc iVar) n (smax[iVar := 0]) (smin[iVar := 0])
      else (smax, smin))"
  by pat_completeness auto
termination
  by (relation "measure (\<lambda>(iVar, n, smax, smin). n - iVar)") auto

text \<open>
  \<^verbatim>\<open>CTurbVariable(val_nDim, val_nVar, config)\<close>. The base-class constructor
  \<^verbatim>\<open>CVariable(val_nDim, val_nVar, config)\<close> is not among the sources: the object
  as it leaves that constructor is the parameter \<open>base\<close>, and \<open>nVar base\<close> is the member
  \<^verbatim>\<open>nVar\<close> the loops read. The three \<open>junk\<close> parameters are the contents of the
  freshly allocated arrays.
\<close>

definition CTurbVariable_ctor ::
  "(nat \<Rightarrow> real) \<Rightarrow> (nat \<Rightarrow> real) \<Rightarrow> (nat \<Rightarrow> real) \<Rightarrow> turb_variable \<Rightarrow> turb_variable" where
  "CTurbVariable_ctor junk1 junk2 junk3 base =
     (let lm = Limiter_loop 0 (nVar base) (new_double junk1 (nVar base));
          mm = MaxMin_loop 0 (nVar base) (new_double junk2 (nVar base))
                 (new_double junk3 (nVar base))
      in base\<lparr>Limiter := lm, Solution_Max := fst mm, Solution_Min := snd mm\<rparr>)"

definition GetmuT :: "turb_variable \<Rightarrow> real" where
  "GetmuT v = muT v"

definition SetmuT :: "real \<Rightarrow> turb_variable \<Rightarrow> turb_variable" where
  "SetmuT val_muT v = v\<lparr>muT := val_muT\<rparr>"

text \<open>\<^verbatim>\<open>CTurbSAVariable(val_nu_tilde, val_muT, val_nDim, val_nVar, config)\<close>\<close>

definition CTurbSAVariable_ctor ::
  "real \<Rightarrow> real \<Rightarrow> (nat \<Rightarrow> real) \<Rightarrow> (nat \<Rightarrow> real) \<Rightarrow> (nat \<Rightarrow> real) \<Rightarrow> turb_variable
     \<Rightarrow> fault + turb_variable" where
  "CTurbSAVariable_ctor val_nu_tilde val_muT junk1 junk2 junk3 base =
     (let v = CTurbVariable_ctor junk1 junk2 junk3 base in
      andthen (store (Solution v) 0 val_nu_tilde) (\<lambda>sol.
      andthen (store (Solution_Old v) 0 val_nu_tilde) (\<lambda>old.
      Inr (v\<lparr>Solution := sol, Solution_Old := old, muT := val_muT\<rparr>))))"

text \<open>\<^verbatim>\<open>CTurbSSTVariable(val_kine, val_omega, val_muT, val_nDim, val_nVar, constants,
  config)\<close>; \<open>constants\<close> is the array behind the pointer.\<close>

definition CTurbSSTVariable_ctor ::
  "real \<Rightarrow> real \<Rightarrow> real \<Rightarrow> real list \<Rightarrow> (nat \<Rightarrow> real) \<Rightarrow> (nat \<Rightarrow> real) \<Rightarrow> (nat \<Rightarrow> real)
     \<Rightarrow> turb_variable \<Rightarrow> fault + turb_variable" where
  "CTurbSSTVariable_ctor val_kine val_omega val_muT constants junk1 junk2 junk3 base =
     (let v = CTurbVariable_ctor junk1 junk2 junk3 base in
      andthen (store (Solution v) 0 val_kine) (\<lambda>sol0.
      andthen (store (Solution_Old v) 0 val_kine) (\<lambda>old0.
      andthen (store sol0 1 val_omega) (\<lambda>sol1.
      andthen (store old0 1 val_omega) (\<lambda>old1.
      andthen (load constants 3) (\<lambda>c3.
      andthen (load constants 6) (\<lambda>c6.
      Inr (v\<lparr>Solution := sol1, Solution_Old := old1, sigma_om2 := c3, beta_star := c6,
             F1 := 1, F2 := 0, CDkw := 0, muT := val_muT\<rparr>))))))))"

subsection \<open>Blending functions of the SST model\<close>

text \<open>\<^verbatim>\<open>for (iDim = 0; iDim < nDim; iDim++) CDkw += Gradient[0][iDim]*Gradient[1][iDim];\<close>\<close>

function CDkw_loop :: "nat \<Rightarrow> nat \<Rightarrow> real list list \<Rightarrow> real \<Rightarrow> fault + real" where
  "CDkw_loop iDim n grad acc =
     (if iDim < n then
        andthen (load2 grad 0 iDim) (\<lambda>g0.
        andthen (load2 grad 1 iDim) (\<lambda>g1.
        CDkw_loop (Suc iDim) n grad (acc + g0 * g1)))
      else Inr acc)"
  by pat_completeness auto
termination
  by (relation "measure (\<lambda>(iDim, n, grad, acc). n - iDim)") auto

text \<open>
  \<^verbatim>\<open>CTurbSSTVariable::SetBlendingFunc(val_viscosity, val_dist, val_density)\<close>, statement
  by statement. \<^verbatim>\<open>pow(10.0, -20.0)\<close> is \<open>10 powr (-20)\<close>. \<^verbatim>\<open>sqrt\<close> of a negative
  number is a NaN in C++ and \<^term>\<open>sqrt\<close> of HOL here; no statement below relies on
  that value. The arithmetic is that of the reals: the definition shows which members
  the call reads and which it writes. The numbers that the rounded arithmetic and the
  library's \<^verbatim>\<open>sqrt\<close>, \<^verbatim>\<open>tanh\<close> and \<^verbatim>\<open>pow\<close> store in \<open>F1\<close> and \<open>F2\<close> are
  not determined by it.
\<close>

definition SetBlendingFunc ::
  "real \<Rightarrow> real \<Rightarrow> real \<Rightarrow> turb_variable \<Rightarrow> fault + turb_variable" where
  "SetBlendingFunc val_viscosity val_dist val_density v =
     andthen (CDkw_loop 0 (nDim v) (Gradient v) 0) (\<lambda>cd0.
     andthen (load (Solution v) 1) (\<lambda>omega.
     andthen (fdiv (2 * val_density * sigma_om2 v) omega) (\<lambda>q.
     let cd1 = cd0 * q;
         cd = max cd1 (10 powr (-20))
     in
     andthen (load (Solution v) 0) (\<lambda>k.
     andthen (fdiv (sqrt k) (beta_star v * omega * val_dist)) (\<lambda>arg2A.
     andthen (fdiv (500 * val_viscosity) (val_density * val_dist * val_dist * omega)) (\<lambda>arg2B.
     let arg2 = max arg2A arg2B in
     andthen (fdiv (4 * val_density * sigma_om2 v * k) (cd * val_dist * val_dist)) (\<lambda>r.
     let arg1 = min arg2 r;
         f1 = tanh (arg1 * arg1 * arg1 * arg1);
         arg2' = max (2 * arg2A) arg2B;
         f2 = tanh (arg2' * arg2')
     in Inr (v\<lparr>CDkw := cd, F1 := f1, F2 := f2\<rparr>))))))))"

text \<open>
  Modelled from the spec: the shape of the gradient storage, which the constructor of
  \<^verbatim>\<open>CVariable\<close> (not among the sources) allocates. The spec's data model gives a grid
  point a state vector of \<open>nVar\<close> quantities and their gradients with \<open>nDim\<close> components
  each; an SST variable has the two quantities \<open>k\<close> and \<open>omega\<close>.
\<close>

definition gradient_shape :: "turb_variable \<Rightarrow> bool" where
  "gradient_shape v =
     (2 \<le> length (Gradient v) \<and> list_all (\<lambda>row. length row = nDim v) (Gradient v))"

subsection \<open>The divisors of the blending functions in binary64 arithmetic\<close>

text \<open>
  Whether a divisor is zero depends on the rounding of the products it is made of. For
  the divisors a \<^verbatim>\<open>double\<close> is a value of IEEE-754 binary64: a finite number, an
  infinity or a NaN. \<open>Fin 0\<close> stands for both zeros, which both compare equal to
  \<^verbatim>\<open>0.0\<close>; \<open>Fin x\<close> is meant for the reals \<open>x\<close> that binary64 holds, and the
  operations below return such values.

  Every multiplication rounds its exact result to binary64, to the nearest value with
  ties to the even one and with gradual underflow: the evaluation of \<^verbatim>\<open>double\<close>
  expressions in double precision, with no wider intermediate format and no fused
  operation.
\<close>

datatype double = Fin real | PInf | NInf | NaN

text \<open>The integer nearest to \<open>q\<close>, the even one of two equally near.\<close>

definition rne :: "real \<Rightarrow> int" where
  "rne q = (let f = \<lfloor>q\<rfloor> in
     if q - of_int f < 1 / 2 then f
     else if 1 / 2 < q - of_int f then f + 1
     else if even f then f else f + 1)"

text \<open>The exponent of the last place of the binary64 values next to \<open>x\<close>: with 53
  significant bits it is 52 below the exponent of \<open>x\<close>, and \<open>-1074\<close> in the
  subnormal range.\<close>

definition ulp_exp :: "real \<Rightarrow> int" where
  "ulp_exp x = max (\<lfloor>log 2 \<bar>x\<bar>\<rfloor> - 52) (- 1074)"

text \<open>The binary64 value of the real \<open>x\<close>: \<open>x\<close> rounded to a multiple of its last
  place; a magnitude of \<open>2\<^sup>1\<^sup>0\<^sup>2\<^sup>4\<close> or more after rounding is an infinity.\<close>

definition rnd :: "real \<Rightarrow> double" where
  "rnd x = (if x = 0 then Fin 0
     else let y = of_int (rne (x / 2 powr of_int (ulp_exp x))) * 2 powr of_int (ulp_exp x) in
       if 2 ^ 1024 \<le> y then PInf else if y \<le> - (2 ^ 1024) then NInf else Fin y)"

definition dsign :: "double \<Rightarrow> int" where
  "dsign a = (case a of Fin x \<Rightarrow> (if x < 0 then - 1 else if x = 0 then 0 else 1)
     | PInf \<Rightarrow> 1 | NInf \<Rightarrow> - 1 | NaN \<Rightarrow> 0)"

text \<open>\<^verbatim>\<open>a * b\<close>: a NaN gives a NaN, an infinity times zero is a NaN, an infinity
  times anything else an infinity with the product of the signs.\<close>

definition fmul :: "double \<Rightarrow> double \<Rightarrow> double" where
  "fmul a b =
     (case (a, b) of
        (Fin x, Fin y) \<Rightarrow> rnd (x * y)
      | (NaN, _) \<Rightarrow> NaN
      | (_, NaN) \<Rightarrow> NaN
      | _ \<Rightarrow> (if dsign a * dsign b = 0 then NaN
              else if 0 < dsign a * dsign b then PInf else NInf))"

text \<open>\<^verbatim>\<open>a < b\<close>: false whenever a NaN is compared.\<close>

definition flt :: "double \<Rightarrow> double \<Rightarrow> bool" where
  "flt a b =
     (case (a, b) of
        (NaN, _) \<Rightarrow> False
      | (_, NaN) \<Rightarrow> False
      | (Fin x, Fin y) \<Rightarrow> x < y
      | (PInf, _) \<Rightarrow> False
      | (_, PInf) \<Rightarrow> True
      | (_, NInf) \<Rightarrow> False
      | (NInf, _) \<Rightarrow> True)"

text \<open>\<^verbatim>\<open>std::max(a, b)\<close> returns \<^verbatim>\<open>b\<close> if \<^verbatim>\<open>a < b\<close> and \<^verbatim>\<open>a\<close>
  otherwise.\<close>

definition cmax :: "double \<Rightarrow> double \<Rightarrow> double" where
  "cmax a b = (if flt a b then b else a)"

text \<open>
  The divisors of the four divisions of \<^verbatim>\<open>SetBlendingFunc\<close>, in the order of the
  code: \<^verbatim>\<open>Solution[1]\<close> (line 105), \<^verbatim>\<open>beta_star*Solution[1]*val_dist\<close> (line 109),
  \<^verbatim>\<open>val_density*val_dist*val_dist*Solution[1]\<close> (line 110) and
  \<^verbatim>\<open>CDkw*val_dist*val_dist\<close> (line 112); a product groups from the left. \<^verbatim>\<open>CDkw\<close>
  there is the value after \<^verbatim>\<open>CDkw = max(CDkw, pow(10.0, -20.0))\<close> in line 106. The
  value \<open>cd1\<close> that lines 102 to 105 leave in \<^verbatim>\<open>CDkw\<close> is a parameter and may be
  any \<open>double\<close>; so is \<open>tiny\<close>, the result of \<^verbatim>\<open>pow(10.0, -20.0)\<close>, a function of
  the C library. \<open>beta\<close> is the member \<^verbatim>\<open>beta_star\<close> and \<open>omega\<close> is
  \<^verbatim>\<open>Solution[1]\<close>.
\<close>

definition SetBlendingFunc_divisors ::
  "double \<Rightarrow> double \<Rightarrow> double \<Rightarrow> double \<Rightarrow> double \<Rightarrow> double \<Rightarrow> double list" where
  "SetBlendingFunc_divisors cd1 tiny beta omega val_dist val_density =
     (let cd = cmax cd1 tiny in
      [omega,
       fmul (fmul beta omega) val_dist,
       fmul (fmul (fmul val_density val_dist) val_dist) omega,
       fmul (fmul cd val_dist) val_dist])"

text \<open>A multiplication underflows to zero: both factors are finite and not zero, and the
  exact product is at most \<open>2\<^sup>-\<^sup>1\<^sup>0\<^sup>7\<^sup>5\<close> in magnitude, half the least positive
  binary64 value.\<close>

definition underflows :: "double \<Rightarrow> double \<Rightarrow> bool" where
  "underflows a b =
     (case (a, b) of
        (Fin x, Fin y) \<Rightarrow> x \<noteq> 0 \<and> y \<noteq> 0 \<and> \<bar>x * y\<bar> \<le> 1 / 2 ^ 1075
      | _ \<Rightarrow> False)"

text \<open>One of the seven multiplications in the divisors underflows to zero.\<close>

definition SetBlendingFunc_underflows ::
  "double \<Rightarrow> double \<Rightarrow> double \<Rightarrow> double \<Rightarrow> double \<Rightarrow> double \<Rightarrow> bool" where
  "SetBlendingFunc_underflows cd1 tiny beta omega val_dist val_density =
     (let cd = cmax cd1 tiny in
      underflows beta omega \<or> underflows (fmul beta omega) val_dist \<or>
      underflows val_density val_dist \<or> underflows (fmul val_density val_dist) val_dist \<or>
      underflows (fmul (fmul val_density val_dist) val_dist) omega \<or>
      underflows cd val_dist \<or> underflows (fmul cd val_dist) val_dist)"

section \<open>Configuration options: option\_structure.hpp\<close>

subsection \<open>String streams\<close>

text \<open>
  The option classes parse their tokens through \<^verbatim>\<open>std::stringstream\<close>. A stream is
  the text written and not yet read, and whether it still is \<^verbatim>\<open>good()\<close>: once an
  extraction has failed or has run into the end of the text, the stream takes no more
  text and every later extraction fails, since none of the functions below clears
  the state.

  The numeric extraction \<^verbatim>\<open>operator>>(double&)\<close> belongs to the C++ library, not to
  the sources. It is the parameter \<open>extract\<close> of the model: \<open>extract s = Some (x, rest)\<close>
  when the extraction of a number from the unread text \<open>s\<close> succeeds with value \<open>x\<close>
  and leaves \<open>rest\<close> unread, and \<open>extract s = None\<close> when it fails.
\<close>

type_synonym extractor = "string \<Rightarrow> (real \<times> string) option"

record sstream =
  unread :: string
  good :: bool

definition ss_new :: "string \<Rightarrow> sstream" where
  "ss_new s = \<lparr>unread = s, good = True\<rparr>"

text \<open>\<^verbatim>\<open>ss << s\<close>\<close>

definition ss_put :: "string \<Rightarrow> sstream \<Rightarrow> sstream" where
  "ss_put s ss = (if good ss then ss\<lparr>unread := unread ss @ s\<rparr> else ss)"

text \<open>\<^verbatim>\<open>ss >> x\<close> for a \<^verbatim>\<open>double x\<close>: the value read, if any, and the stream after.\<close>

definition ss_get_double :: "extractor \<Rightarrow> sstream \<Rightarrow> real option \<times> sstream" where
  "ss_get_double extract ss =
     (if \<not> good ss then (None, ss)
      else case extract (unread ss) of
             None \<Rightarrow> (None, ss\<lparr>good := False\<rparr>)
           | Some (x, rest) \<Rightarrow> (Some x, ss\<lparr>unread := rest, good := (rest \<noteq> [])\<rparr>))"

definition isspace :: "char \<Rightarrow> bool" where
  "isspace c = (c \<in> set [CHR '' '', CHR 0x09, CHR 0x0A, CHR 0x0B, CHR 0x0C, CHR 0x0D])"

text \<open>\<^verbatim>\<open>ss >> s\<close> for a \<^verbatim>\<open>std::string s\<close>: white space is skipped, then the
  characters up to the next white space are the word read.\<close>

definition ss_get_string :: "sstream \<Rightarrow> string option \<times> sstream" where
  "ss_get_string ss =
     (if \<not> good ss then (None, ss)
      else let s = dropWhile isspace (unread ss) in
        if s = [] then (None, ss\<lparr>unread := [], good := False\<rparr>)
        else let rest = dropWhile (\<lambda>c. \<not> isspace c) s in
          (Some (takeWhile (\<lambda>c. \<not> isspace c) s), ss\<lparr>unread := rest, good := (rest \<noteq> [])\<rparr>))"

text \<open>
  A \<^verbatim>\<open>double\<close> cell of a fresh array holds no determinate value until it is
  assigned: \<open>None\<close>. A failed extraction into a cell leaves it as it was (the rule
  before C++11; since C++11 it stores zero); no statement below depends on such a cell.
\<close>

type_synonym cell = "real option"

definition new_cells :: "nat \<Rightarrow> cell list" where
  "new_cells n = replicate n None"

definition assign :: "cell \<Rightarrow> real option \<Rightarrow> cell" where
  "assign old r = (case r of None \<Rightarrow> old | Some x \<Rightarrow> Some x)"

text \<open>\<^verbatim>\<open>c *= f\<close>\<close>

definition scale :: "real \<Rightarrow> cell \<Rightarrow> cell" where
  "scale f c = map_option (\<lambda>x. x * f) c"

definition PI_NUMBER :: real where
  "PI_NUMBER = 4 * arctan 1"

definition deg2rad :: real where
  "deg2rad = PI_NUMBER / 180"

subsection \<open>COptionBase and COptionDouble\<close>

definition optionCheckMultipleValues :: "string list \<Rightarrow> string \<Rightarrow> string \<Rightarrow> string" where
  "optionCheckMultipleValues option_value type_id option_name =
     (if length option_value \<noteq> 1 then option_name @ '': multiple values for type '' @ type_id
      else '''')"

definition badValue :: "string list \<Rightarrow> string \<Rightarrow> string \<Rightarrow> string" where
  "badValue option_value type_id option_name =
     option_name @ '': improper option value for type '' @ type_id"

text \<open>\<^verbatim>\<open>COptionDouble::SetValue(option_value)\<close>: the message returned and the
  referenced field after the call. \<open>name\<close> is the option's identifier.\<close>

definition COptionDouble_SetValue ::
  "extractor \<Rightarrow> string \<Rightarrow> string list \<Rightarrow> real \<Rightarrow> string \<times> real" where
  "COptionDouble_SetValue extract name option_value field =
     (let out = optionCheckMultipleValues option_value ''double'' name in
      if out \<noteq> '''' then (out, field)
      else case ss_get_double extract (ss_new (option_value ! 0)) of
             (Some val, rest) \<Rightarrow> ('''', val)
           | (None, rest) \<Rightarrow> (badValue option_value ''double'' name, field))"

subsection \<open>COptionPeriodic\<close>

text \<open>The members the option refers to. A pointer is \<open>None\<close> when it is \<^verbatim>\<open>NULL\<close>;
  \<open>size_ref\<close> is the member \<^verbatim>\<open>size\<close>, an \<^verbatim>\<open>unsigned short\<close>.\<close>

record periodic_fields =
  size_ref :: "16 word"
  marker_bound :: "string list option"
  marker_donor :: "string list option"
  rot_center :: "cell list list option"
  rot_angles :: "cell list list option"
  translation :: "cell list list option"

text \<open>The five arrays while the loops fill them.\<close>

record periodic_arrays =
  bound :: "string list"
  donor :: "string list"
  center :: "cell list list"
  angles :: "cell list list"
  transl :: "cell list list"

text \<open>
  Nine times in a row the source has
  \<^verbatim>\<open>ss << option_value[j] << " "; if (!(ss >> cell)) return badValue(...);\<close>
  for consecutive tokens \<open>j\<close>. \<open>get_doubles\<close> runs these steps over the tokens given:
  the values read up to the first failure, then untouched cells, and the stream.
\<close>

fun get_doubles :: "extractor \<Rightarrow> string list \<Rightarrow> sstream \<Rightarrow> cell list \<times> sstream" where
  "get_doubles extract [] ss = ([], ss)"
| "get_doubles extract (tok # toks) ss =
     (case ss_get_double extract (ss_put '' '' (ss_put tok ss)) of
        (None, ss') \<Rightarrow> (None # new_cells (length toks), ss')
      | (Some x, ss') \<Rightarrow>
          (case get_doubles extract toks ss' of (cs, ss'') \<Rightarrow> (Some x # cs, ss'')))"

definition all_read :: "cell list \<Rightarrow> bool" where
  "all_read cs = list_all (\<lambda>c. c \<noteq> None) cs"

text \<open>The body of the first loop, for the entry \<open>i\<close>: \<open>False\<close> when it returned
  \<^verbatim>\<open>badValue\<close>.\<close>

definition first_entry ::
  "extractor \<Rightarrow> string list \<Rightarrow> nat \<Rightarrow> sstream \<Rightarrow> periodic_arrays
     \<Rightarrow> bool \<times> sstream \<times> periodic_arrays" where
  "first_entry extract option_value i ss a =
     (let a1 = a\<lparr>bound := (bound a)[i := option_value ! (11 * i)],
                 donor := (donor a)[i := option_value ! (11 * i + 1)]\<rparr>;
          (cs, ss') = get_doubles extract (take 9 (drop (11 * i + 2) option_value)) ss;
          a2 = a1\<lparr>center := (center a1)[i := take 3 cs],
                  angles := (angles a1)[i := take 3 (drop 3 cs)],
                  transl := (transl a1)[i := take 3 (drop 6 cs)]\<rparr>
      in if \<not> all_read cs then (False, ss', a2)
         else (True, ss', a2\<lparr>angles := (angles a2)[i := map (scale deg2rad) (take 3 (drop 3 cs))]\<rparr>))"

text \<open>The body of the second loop, for the entry \<open>i\<close> mirroring the entry \<open>i - n\<close>,
  where \<open>n\<close> is \<^verbatim>\<open>nVals/2\<close>.\<close>

definition second_entry ::
  "extractor \<Rightarrow> string list \<Rightarrow> nat \<Rightarrow> nat \<Rightarrow> sstream \<Rightarrow> periodic_arrays
     \<Rightarrow> bool \<times> sstream \<times> periodic_arrays" where
  "second_entry extract option_value n i ss a =
     (let a1 = a\<lparr>bound := (bound a)[i := option_value ! (11 * (i - n) + 1)],
                 donor := (donor a)[i := option_value ! (11 * (i - n))]\<rparr>;
          (cs, ss') = get_doubles extract (take 9 (drop (11 * (i - n) + 2) option_value)) ss;
          a2 = a1\<lparr>center := (center a1)[i := take 3 cs],
                  angles := (angles a1)[i := take 3 (drop 3 cs)],
                  transl := (transl a1)[i := take 3 (drop 6 cs)]\<rparr>
      in if \<not> all_read cs then (False, ss', a2)
         else (True, ss',
           a2\<lparr>center := (center a2)[i := map (scale 1) (take 3 cs)],
               angles := (angles a2)[i := map (scale (- deg2rad)) (take 3 (drop 3 cs))],
               transl := (transl a2)[i := map (scale (- 1)) (take 3 (drop 6 cs))]\<rparr>))"

text \<open>\<^verbatim>\<open>for (int i = 0; i < (nVals/2); i++)\<close>\<close>

function first_loop ::
  "extractor \<Rightarrow> string list \<Rightarrow> nat \<Rightarrow> nat \<Rightarrow> sstream \<Rightarrow> periodic_arrays
     \<Rightarrow> bool \<times> sstream \<times> periodic_arrays" where
  "first_loop extract option_value n i ss a =
     (if i < n then
        (case first_entry extract option_value i ss a of
           (False, ss', a') \<Rightarrow> (False, ss', a')
         | (True, ss', a') \<Rightarrow> first_loop extract option_value n (Suc i) ss' a')
      else (True, ss, a))"
  by pat_completeness auto
termination
  by (relation "measure (\<lambda>(extract, option_value, n, i, ss, a). n - i)") auto

text \<open>\<^verbatim>\<open>for (unsigned long i = (nVals/2); i < nVals; i++)\<close>\<close>

function second_loop ::
  "extractor \<Rightarrow> string list \<Rightarrow> nat \<Rightarrow> nat \<Rightarrow> sstream \<Rightarrow> periodic_arrays
     \<Rightarrow> bool \<times> sstream \<times> periodic_arrays" where
  "second_loop extract option_value n i ss a =
     (if i < 2 * n then
        (case second_entry extract option_value n i ss a of
           (False, ss', a') \<Rightarrow> (False, ss', a')
         | (True, ss', a') \<Rightarrow> second_loop extract option_value n (Suc i) ss' a')
      else (True, ss, a))"
  by pat_completeness auto
termination
  by (relation "measure (\<lambda>(extract, option_value, n, i, ss, a). 2 * n - i)") auto

definition set_arrays :: "16 word \<Rightarrow> periodic_arrays \<Rightarrow> periodic_fields \<Rightarrow> periodic_fields" where
  "set_arrays sz a st = st\<lparr>size_ref := sz, marker_bound := Some (bound a),
     marker_donor := Some (donor a), rot_center := Some (center a),
     rot_angles := Some (angles a), translation := Some (transl a)\<rparr>"

definition set_null :: "periodic_fields \<Rightarrow> periodic_fields" where
  "set_null st = st\<lparr>size_ref := 0, marker_bound := None, marker_donor := None,
     rot_center := None, rot_angles := None, translation := None\<rparr>"

text \<open>
  \<^verbatim>\<open>COptionPeriodic::SetValue(option_value)\<close>: the string returned and the referenced
  members after the call. The result is \<open>None\<close> where the behaviour is undefined: the
  allocation loop counts with an \<^verbatim>\<open>int\<close>, which overflows from \<open>2\<^sup>3\<^sup>1\<close> entries on.
\<close>

definition COptionPeriodic_SetValue ::
  "extractor \<Rightarrow> string \<Rightarrow> string list \<Rightarrow> periodic_fields \<Rightarrow> (string \<times> periodic_fields) option" where
  "COptionPeriodic_SetValue extract name option_value st =
     (let totalVals = length option_value in
      if totalVals = 1 \<and> option_value ! 0 = ''NONE'' then Some ('''', set_null st)
      else if totalVals mod 11 \<noteq> 0 then
        Some (name @ '': must have a number of entries divisible by 11'', set_null st)
      else
        let nVals = 2 * (totalVals div 11) in
        if 2 ^ 31 \<le> nVals then None
        else
          let a0 = \<lparr>bound = replicate nVals [], donor = replicate nVals [],
                    center = replicate nVals (new_cells 3),
                    angles = replicate nVals (new_cells 3),
                    transl = replicate nVals (new_cells 3)\<rparr>
          in case first_loop extract option_value (nVals div 2) 0 (ss_new []) a0 of
               (False, ss1, a1) \<Rightarrow>
                 Some (badValue option_value ''periodic'' name, set_arrays (of_nat nVals) a1 st)
             | (True, ss1, a1) \<Rightarrow>
                 (case second_loop extract option_value (nVals div 2) (nVals div 2) ss1 a1 of
                    (False, ss2, a2) \<Rightarrow>
                      Some (badValue option_value ''periodic'' name, set_arrays (of_nat nVals) a2 st)
                  | (True, ss2, a2) \<Rightarrow> Some ('''', set_arrays (of_nat nVals) a2 st)))"

subsection \<open>The option references that throw\<close>

text \<open>
  The older option classes report an error on \<^verbatim>\<open>cerr\<close> and \<^verbatim>\<open>throw(-1)\<close>. An
  outcome holds the lines written to \<^verbatim>\<open>cerr\<close> and the referenced members as the call
  leaves them, by return or by the exception; \<open>Undefined\<close> stands for undefined
  behaviour (an access outside of an array) and for integer conversions that depend on
  the platform.
\<close>

datatype 'a outcome = Returned "string list" 'a | Thrown "string list" 'a | Undefined

record marker_fields =
  marker_ref :: "string list option"
  num_marker :: "16 word"

text \<open>\<^verbatim>\<open>CMarkerOptionRef::SetValue(value)\<close>\<close>

definition CMarkerOptionRef_SetValue :: "string list \<Rightarrow> marker_fields \<Rightarrow> marker_fields outcome" where
  "CMarkerOptionRef_SetValue val st =
     (if length val = 0 then
        Thrown [''Error in CMarkerOptionRef::SetValue(): marker option in config file with no value'',
                ''Use NONE for no markers.''] st
      else
        let st1 = st\<lparr>marker_ref := Some val\<rparr> in
        if length val = 1 \<and> val ! 0 = ''NONE'' then Returned [] (st1\<lparr>num_marker := 0\<rparr>)
        else Returned [] (st1\<lparr>num_marker := of_nat (length val)\<rparr>))"

record marker_periodic_fields =
  nMarker_PerBound :: "16 word"
  Marker_PerBound :: "string list option"
  Marker_PerDonor :: "string list option"
  Periodic_RotCenter :: "cell list list option"
  Periodic_RotAngles :: "cell list list option"
  Periodic_Translation :: "cell list list option"

text \<open>
  The unchecked extractions of \<^verbatim>\<open>CMarkerPeriodicRef::SetValue\<close>:
  \<^verbatim>\<open>ss << value[i++] << " "; ss >> cell;\<close> for each token in turn, into the cells
  of fresh arrays.
\<close>

fun read_doubles :: "extractor \<Rightarrow> string list \<Rightarrow> sstream \<Rightarrow> cell list \<times> sstream" where
  "read_doubles extract [] ss = ([], ss)"
| "read_doubles extract (tok # toks) ss =
     (case ss_get_double extract (ss_put '' '' (ss_put tok ss)) of
        (r, ss') \<Rightarrow>
          (case read_doubles extract toks ss' of (cs, ss'') \<Rightarrow> (assign None r # cs, ss'')))"

text \<open>The body of the loop over the markers: the strings and cells of the marker
  \<open>iMarker\<close>, read from the eleven tokens from \<open>11 * iMarker\<close> on.\<close>

definition marker_periodic_entry ::
  "extractor \<Rightarrow> string list \<Rightarrow> nat \<Rightarrow> sstream \<Rightarrow> periodic_arrays \<Rightarrow> sstream \<times> periodic_arrays" where
  "marker_periodic_entry extract val iMarker ss a =
     (let i = 11 * iMarker;
          (b, ss1) = ss_get_string (ss_put '' '' (ss_put (val ! i) ss));
          (d, ss2) = ss_get_string (ss_put '' '' (ss_put (val ! (i + 1)) ss1));
          (cs, ss3) = read_doubles extract (take 9 (drop (i + 2) val)) ss2
      in (ss3,
          a\<lparr>bound := (bound a)[iMarker := (case b of None \<Rightarrow> bound a ! iMarker | Some w \<Rightarrow> w)],
            donor := (donor a)[iMarker := (case d of None \<Rightarrow> donor a ! iMarker | Some w \<Rightarrow> w)],
            center := (center a)[iMarker := take 3 cs],
            angles := (angles a)[iMarker := map (scale deg2rad) (take 3 (drop 3 cs))],
            transl := (transl a)[iMarker := take 3 (drop 6 cs)]\<rparr>))"

function marker_periodic_loop ::
  "extractor \<Rightarrow> string list \<Rightarrow> nat \<Rightarrow> nat \<Rightarrow> sstream \<Rightarrow> periodic_arrays \<Rightarrow> periodic_arrays" where
  "marker_periodic_loop extract val n iMarker ss a =
     (if iMarker < n then
        (case marker_periodic_entry extract val iMarker ss a of
           (ss', a') \<Rightarrow> marker_periodic_loop extract val n (Suc iMarker) ss' a')
      else a)"
  by pat_completeness auto
termination
  by (relation "measure (\<lambda>(extract, val, n, iMarker, ss, a). n - iMarker)") auto

text \<open>
  \<^verbatim>\<open>CMarkerPeriodicRef::SetValue(value)\<close>. \<^verbatim>\<open>static_cast<int>(value.size())\<close> is
  the size itself below \<open>2\<^sup>3\<^sup>1\<close> and depends on the platform from there on.
\<close>

definition CMarkerPeriodicRef_SetValue ::
  "extractor \<Rightarrow> string list \<Rightarrow> marker_periodic_fields \<Rightarrow> marker_periodic_fields outcome" where
  "CMarkerPeriodicRef_SetValue extract val st =
     (if Marker_PerBound st \<noteq> None \<or> Marker_PerDonor st \<noteq> None \<or>
         Periodic_RotCenter st \<noteq> None \<or> Periodic_RotAngles st \<noteq> None \<or>
         Periodic_Translation st \<noteq> None then
        Thrown [''Error in CMarkerPeriodicRef::SetValue(): one or more periodic-marker option arrays have already been allocated.''] st
      else if 2 ^ 31 \<le> length val then Undefined
      else if length val mod 11 \<noteq> 0 then
        (if val ! 0 = ''NONE'' then Returned [] (st\<lparr>nMarker_PerBound := 0\<rparr>)
         else Thrown [''Error in CMarkerPeriodicRef::SetValue(): incorrect number of MARKER_PERIODIC parameters in the configuration file.''] st)
      else
        let nMarker = (of_nat (length val) :: 16 word) div 11;
            n = unat nMarker;
            a0 = \<lparr>bound = replicate n [], donor = replicate n [],
                  center = replicate n (new_cells 3), angles = replicate n (new_cells 3),
                  transl = replicate n (new_cells 3)\<rparr>;
            a = marker_periodic_loop extract val n 0 (ss_new []) a0
        in Returned [] (st\<lparr>nMarker_PerBound := nMarker, Marker_PerBound := Some (bound a),
             Marker_PerDonor := Some (donor a), Periodic_RotCenter := Some (center a),
             Periodic_RotAngles := Some (angles a), Periodic_Translation := Some (transl a)\<rparr>))"

subsection \<open>CDVParamOptionRef\<close>

text \<open>The values of \<^verbatim>\<open>enum ENUM_PARAM\<close> and \<^verbatim>\<open>MAX_PARAMETERS\<close>.\<close>

definition FFD_SETTING :: "16 word" where "FFD_SETTING = 0"
definition HICKS_HENNE :: "16 word" where "HICKS_HENNE = 1"
definition NACA_4DIGITS :: "16 word" where "NACA_4DIGITS = 6"
definition DISPLACEMENT :: "16 word" where "DISPLACEMENT = 8"
definition ROTATION :: "16 word" where "ROTATION = 9"
definition FFD_CONTROL_POINT :: "16 word" where "FFD_CONTROL_POINT = 10"
definition FFD_DIHEDRAL_ANGLE :: "16 word" where "FFD_DIHEDRAL_ANGLE = 11"
definition FFD_TWIST_ANGLE :: "16 word" where "FFD_TWIST_ANGLE = 12"
definition FFD_ROTATION :: "16 word" where "FFD_ROTATION = 13"
definition FFD_CAMBER :: "16 word" where "FFD_CAMBER = 14"
definition FFD_THICKNESS :: "16 word" where "FFD_THICKNESS = 15"
definition PARABOLIC :: "16 word" where "PARABOLIC = 17"
definition OBSTACLE :: "16 word" where "OBSTACLE = 18"
definition STRETCH :: "16 word" where "STRETCH = 19"
definition SURFACE_FILE :: "16 word" where "SURFACE_FILE = 20"
definition COSINE_BUMP :: "16 word" where "COSINE_BUMP = 21"
definition FOURIER :: "16 word" where "FOURIER = 22"
definition SPHERICAL :: "16 word" where "SPHERICAL = 23"
definition AIRFOIL :: "16 word" where "AIRFOIL = 24"
definition FFD_CONTROL_POINT_2D :: "16 word" where "FFD_CONTROL_POINT_2D = 25"
definition FFD_CAMBER_2D :: "16 word" where "FFD_CAMBER_2D = 26"
definition FFD_THICKNESS_2D :: "16 word" where "FFD_THICKNESS_2D = 27"

definition MAX_PARAMETERS :: nat where
  "MAX_PARAMETERS = 10"

text \<open>The \<^verbatim>\<open>switch\<close> over the design variable's type, in the order of its cases:
  the number of parameters, or \<open>None\<close> in the \<^verbatim>\<open>default\<close> case.\<close>

definition nParamDV_of :: "16 word \<Rightarrow> nat option" where
  "nParamDV_of dv =
     (if dv = FFD_SETTING then Some 0
      else if dv = FFD_CONTROL_POINT_2D then Some 5
      else if dv = FFD_CAMBER_2D then Some 2
      else if dv = FFD_THICKNESS_2D then Some 2
      else if dv = HICKS_HENNE then Some 2
      else if dv = SPHERICAL then Some 3
      else if dv = COSINE_BUMP then Some 3
      else if dv = FOURIER then Some 3
      else if dv = DISPLACEMENT then Some 3
      else if dv = ROTATION then Some 6
      else if dv = NACA_4DIGITS then Some 3
      else if dv = PARABOLIC then Some 2
      else if dv = OBSTACLE then Some 2
      else if dv = AIRFOIL then Some 2
      else if dv = STRETCH then Some 2
      else if dv = FFD_CONTROL_POINT then Some 7
      else if dv = FFD_DIHEDRAL_ANGLE then Some 7
      else if dv = FFD_TWIST_ANGLE then Some 7
      else if dv = FFD_ROTATION then Some 7
      else if dv = FFD_CAMBER then Some 3
      else if dv = FFD_THICKNESS then Some 3
      else if dv = SURFACE_FILE then Some 0
      else None)"

record dv_fields =
  nDV :: "16 word"
  ParamDV :: "cell list list option"
  Design_Variable :: "16 word list option"

text \<open>\<^verbatim>\<open>for (i = 0; i < value.size(); i++) if (value[i].compare(";") == 0) (*nDV_)++;\<close>,
  in the arithmetic of \<^verbatim>\<open>unsigned short\<close>.\<close>

fun count_semi :: "string list \<Rightarrow> 16 word \<Rightarrow> 16 word" where
  "count_semi [] n = n"
| "count_semi (tok # toks) n = count_semi toks (if tok = '';'' then n + 1 else n)"

text \<open>The number of design variables found: the semicolons, one less when both ends are
  semicolons, one more when neither is. The list is not empty.\<close>

definition counted_nDV :: "string list \<Rightarrow> 16 word" where
  "counted_nDV val =
     (let n = count_semi val 0;
          n1 = (if hd val = '';'' \<and> last val = '';'' then n - 1 else n)
      in if hd val \<noteq> '';'' \<and> last val \<noteq> '';'' then n1 + 1 else n1)"

text \<open>
  \<^verbatim>\<open>for (iParamDV = 0; iParamDV < nParamDV; iParamDV++) { ss << value[i] << " ";
  ss >> (*ParamDV_)[iDV][iParamDV]; i++; }\<close>: the row, the stream and \<open>i\<close> after the loop,
  or \<open>None\<close> when \<open>value[i]\<close> is outside of the vector.
\<close>

function param_loop ::
  "extractor \<Rightarrow> string list \<Rightarrow> nat \<Rightarrow> nat \<Rightarrow> nat \<Rightarrow> sstream \<Rightarrow> cell list
     \<Rightarrow> (cell list \<times> sstream \<times> nat) option" where
  "param_loop extract val nParamDV iParamDV i ss row =
     (if iParamDV < nParamDV then
        (if i < length val \<and> iParamDV < length row then
           (case ss_get_double extract (ss_put '' '' (ss_put (val ! i) ss)) of
              (r, ss') \<Rightarrow>
                param_loop extract val nParamDV (Suc iParamDV) (Suc i) ss'
                  (row[iParamDV := assign (row ! iParamDV) r]))
         else None)
      else Some (row, ss, i))"
  by pat_completeness auto
termination
  by (relation "measure (\<lambda>(extract, val, nParamDV, iParamDV, i, ss, row). nParamDV - iParamDV)") auto

text \<open>
  The loop over the design variables, from \<open>iDV\<close> on. \<open>nParamDV\<close> keeps its value
  from the design variable before when the \<^verbatim>\<open>switch\<close> takes its \<^verbatim>\<open>default\<close>, which
  only writes a line to \<^verbatim>\<open>cerr\<close>.
\<close>

function dv_loop ::
  "extractor \<Rightarrow> string list \<Rightarrow> 16 word list \<Rightarrow> nat \<Rightarrow> nat \<Rightarrow> nat \<Rightarrow> nat \<Rightarrow> sstream
     \<Rightarrow> string list \<Rightarrow> cell list list \<Rightarrow> (cell list list) outcome" where
  "dv_loop extract val dvs n iDV nParamDV i ss cerr rows =
     (if iDV < n then
        (if iDV < length dvs \<and> iDV < length rows then
           (let known = nParamDV_of (dvs ! iDV);
                nParamDV' = (case known of None \<Rightarrow> nParamDV | Some k \<Rightarrow> k);
                cerr' = (case known of
                           None \<Rightarrow> cerr @ [''Error in CDVParamOptionRef::SetValue(): undefined design variable type found in configuration file.'']
                         | Some k \<Rightarrow> cerr)
            in case param_loop extract val nParamDV' 0 i ss (rows ! iDV) of
                 None \<Rightarrow> Undefined
               | Some (row, ss', i') \<Rightarrow>
                   (if iDV + 1 < n then
                      (if i' < length val then
                         (if val ! i' \<noteq> '';'' then
                            Thrown (cerr' @ [''Error in CDVParamOptionRef::SetValue(): a design variable in the configuration file has the wrong number of parameters''])
                              (rows[iDV := row])
                          else dv_loop extract val dvs n (Suc iDV) nParamDV' (Suc i') ss' cerr'
                                 (rows[iDV := row]))
                       else Undefined)
                    else dv_loop extract val dvs n (Suc iDV) nParamDV' i' ss' cerr'
                           (rows[iDV := row])))
         else Undefined)
      else Returned cerr rows)"
  by pat_completeness auto
termination
  by (relation "measure (\<lambda>(extract, val, dvs, n, iDV, nParamDV, i, ss, cerr, rows). n - iDV)") auto

text \<open>\<^verbatim>\<open>CDVParamOptionRef::SetValue(value)\<close>. Reading \<^verbatim>\<open>value[0]\<close> of an empty
  vector is undefined.\<close>

definition CDVParamOptionRef_SetValue ::
  "extractor \<Rightarrow> string list \<Rightarrow> dv_fields \<Rightarrow> dv_fields outcome" where
  "CDVParamOptionRef_SetValue extract val st =
     (if val = [] then Undefined
      else
        let n = counted_nDV val;
            st1 = st\<lparr>nDV := n\<rparr>
        in if 0 < n \<and> Design_Variable st1 = None then
             Thrown [''Error in CDVParamOptionRef::SetValue(): Design_Variable array has not been allocated.'',
                     ''Check that DV_KIND appears before DV_PARAM in configuration file.''] st1
           else
             (case dv_loop extract val (case Design_Variable st1 of None \<Rightarrow> [] | Some dvs \<Rightarrow> dvs)
                     (unat n) 0 0 0 (ss_new []) []
                     (replicate (unat n) (new_cells MAX_PARAMETERS)) of
                Returned cerr rows \<Rightarrow> Returned cerr (st1\<lparr>ParamDV := Some rows\<rparr>)
              | Thrown cerr rows \<Rightarrow> Thrown cerr (st1\<lparr>ParamDV := Some rows\<rparr>)
              | Undefined \<Rightarrow> Undefined))"

text \<open>
  An extractor for the examples: it reads an unsigned decimal integer, as the library's
  extraction does on a token of decimal digits, and fails on a text that does not
  start with a digit after its white space.
\<close>

definition isdigit :: "char \<Rightarrow> bool" where
  "isdigit c = (48 \<le> (of_char c :: nat) \<and> (of_char c :: nat) \<le> 57)"

definition digits_value :: "string \<Rightarrow> nat" where
  "digits_value ds = foldl (\<lambda>a c. 10 * a + (of_char c - 48)) 0 ds"

definition extract_decimal :: extractor where
  "extract_decimal s =
     (let t = dropWhile isspace s; ds = takeWhile isdigit t
      in if ds = [] then None else Some (real (digits_value ds), dropWhile isdigit t))"

text \<open>
  A second extractor for the examples: it reads a decimal integer with an optional minus
  sign, as the library's extraction does on such a text, and stops at the first
  character after the digits.
\<close>

definition extract_signed :: extractor where
  "extract_signed s =
     (let t = dropWhile isspace s;
          neg = (t \<noteq> [] \<and> hd t = CHR ''-'');
          u = (if neg then tl t else t);
          ds = takeWhile isdigit u
      in if ds = [] then None
         else Some (if neg then - real (digits_value ds) else real (digits_value ds),
                    dropWhile isdigit u))"

section \<open>Example objects\<close>

text \<open>Concrete states on which the theorems below are instantiated.\<close>

definition sst_example :: turb_variable where
  "sst_example = \<lparr>nDim = 2, nVar = 2, Solution = [4, 2], Solution_Old = [4, 2],
     Gradient = [[1, 0], [3, 5]], Limiter = [0, 0], Solution_Max = [0, 0],
     Solution_Min = [0, 0], muT = 7, sigma_om2 = 1, beta_star = 1, F1 = 1, F2 = 0, CDkw = 0\<rparr>"

definition base_example :: turb_variable where
  "base_example = \<lparr>nDim = 2, nVar = 2, Solution = [0, 0], Solution_Old = [8, 9],
     Gradient = [[0, 0], [0, 0]], Limiter = [], Solution_Max = [], Solution_Min = [],
     muT = 5, sigma_om2 = 5, beta_star = 5, F1 = 5, F2 = 5, CDkw = 5\<rparr>"

definition dv_example :: dv_fields where
  "dv_example = \<lparr>nDV = 0, ParamDV = None, Design_Variable = None\<rparr>"

definition marker_periodic_example :: marker_periodic_fields where
  "marker_periodic_example = \<lparr>nMarker_PerBound = 7, Marker_PerBound = None,
     Marker_PerDonor = None, Periodic_RotCenter = None, Periodic_RotAngles = None,
     Periodic_Translation = None\<rparr>"

definition periodic_example :: periodic_fields where
  "periodic_example = \<lparr>size_ref = 7, marker_bound = Some [''old''], marker_donor = None,
     rot_center = None, rot_angles = None, translation = None\<rparr>"

definition marker_example :: marker_fields where
  "marker_example = \<lparr>marker_ref = None, num_marker = 7\<rparr>"

text \<open>The binary64 value nearest to \<open>10\<^sup>-\<^sup>2\<^sup>0\<close>.\<close>

definition tiny_example :: double where
  "tiny_example = Fin (6646139978924579 / 2 ^ 119)"

section \<open>Notions for the statements about the periodic option\<close>

text \<open>
  An extraction reads a token whole when it gives the same result with or without a
  blank before the token and, where it succeeds, stops at the blank written after the
  token: nothing of the token is left in the stream.
\<close>

definition reads_whole :: "extractor \<Rightarrow> string \<Rightarrow> bool" where
  "reads_whole extract t =
     (extract ('' '' @ t @ '' '') = extract (t @ '' '') \<and>
      (case extract (t @ '' '') of None \<Rightarrow> True | Some (x, rest) \<Rightarrow> rest = '' ''))"

definition number_of :: "extractor \<Rightarrow> string \<Rightarrow> cell" where
  "number_of extract t = map_option fst (extract (t @ '' ''))"

text \<open>The stream between two tokens: good, with at most the blank unread.\<close>

definition clean :: "sstream \<Rightarrow> bool" where
  "clean ss = (good ss \<and> (unread ss = [] \<or> unread ss = '' ''))"

text \<open>The nine numeric tokens of the entry \<open>e\<close> of an option value, and the numbers
  in them.\<close>

definition nums :: "string list \<Rightarrow> nat \<Rightarrow> string list" where
  "nums option_value e = take 9 (drop (11 * e + 2) option_value)"

definition numbers :: "extractor \<Rightarrow> string list \<Rightarrow> nat \<Rightarrow> cell list" where
  "numbers extract option_value e = map (number_of extract) (nums option_value e)"

definition sized :: "nat \<Rightarrow> periodic_arrays \<Rightarrow> bool" where
  "sized m a = (length (bound a) = m \<and> length (donor a) = m \<and> length (center a) = m \<and>
     length (angles a) = m \<and> length (transl a) = m)"

text \<open>The entry \<open>j\<close> of the five arrays: bound, donor, centre, angles, translation.\<close>

definition entry :: "periodic_arrays \<Rightarrow> nat \<Rightarrow> string \<times> string \<times> cell list \<times> cell list \<times> cell list" where
  "entry a j = (bound a ! j, donor a ! j, center a ! j, angles a ! j, transl a ! j)"

text \<open>What the first loop stores for the entry \<open>e\<close>, and what the second loop stores
  for its mirror.\<close>

definition forward_entry ::
  "extractor \<Rightarrow> string list \<Rightarrow> nat \<Rightarrow> string \<times> string \<times> cell list \<times> cell list \<times> cell list" where
  "forward_entry extract option_value e =
     (let cs = numbers extract option_value e in
      (option_value ! (11 * e), option_value ! (11 * e + 1), take 3 cs,
       map (scale deg2rad) (take 3 (drop 3 cs)), take 3 (drop 6 cs)))"

definition mirror_entry ::
  "extractor \<Rightarrow> string list \<Rightarrow> nat \<Rightarrow> string \<times> string \<times> cell list \<times> cell list \<times> cell list" where
  "mirror_entry extract option_value e =
     (let cs = numbers extract option_value e in
      (option_value ! (11 * e + 1), option_value ! (11 * e), map (scale 1) (take 3 cs),
       map (scale (- deg2rad)) (take 3 (drop 3 cs)), map (scale (- 1)) (take 3 (drop 6 cs))))"

text \<open>Examples: two option values of one entry each. The third token of the second
  holds two numbers with no blank between them.\<close>

definition periodic_value_example :: "string list" where
  "periodic_value_example =
     [''lower'', ''upper'', ''1'', ''2'', ''3'', ''0'', ''0'', ''90'', ''0'', ''0'', ''0'']"

definition periodic_value_glued :: "string list" where
  "periodic_value_glued =
     [''lower'', ''upper'', ''1-2'', ''3'', ''4'', ''5'', ''6'', ''7'', ''8'', ''9'', ''10'']"

definition empty_fields :: periodic_fields where
  "empty_fields = \<lparr>size_ref = 0, marker_bound = None, marker_donor = None,
     rot_center = None, rot_angles = None, translation = None\<rparr>"


section \<open>Properties of the turbulence variables\<close>

declare Limiter_loop.simps [simp del] MaxMin_loop.simps [simp del] CDkw_loop.simps [simp del]

subsection \<open>The initialisation loops\<close>

lemma Limiter_loop_eq:
  "i \<le> n \<Longrightarrow> length xs = n \<Longrightarrow> Limiter_loop i n xs = take i xs @ replicate (n - i) 0"
proof (induction i n xs rule: Limiter_loop.induct)
  case (1 iVar n arr)
  show ?case
  proof (cases "iVar < n")
    case True
    have "Limiter_loop iVar n arr = Limiter_loop (Suc iVar) n (arr[iVar := 0])"
      using True by (subst Limiter_loop.simps) simp
    also have "\<dots> = take (Suc iVar) (arr[iVar := 0]) @ replicate (n - Suc iVar) 0"
      using 1 True by simp
    also have "take (Suc iVar) (arr[iVar := 0]) = take iVar arr @ [0]"
      using True 1(3) by (simp add: take_Suc_conv_app_nth)
    also have "(take iVar arr @ [0]) @ replicate (n - Suc iVar) 0 = take iVar arr @ replicate (n - iVar) 0"
      using True by (simp add: replicate_Suc[symmetric] Suc_diff_Suc del: replicate_Suc)
    finally show ?thesis .
  next
    case False
    then show ?thesis using 1(2,3) by (subst Limiter_loop.simps) simp
  qed
qed

lemma take_update_snoc:
  "i < length xs \<Longrightarrow> length xs = n \<Longrightarrow>
   take (Suc i) (xs[i := (0::real)]) @ replicate (n - Suc i) 0 = take i xs @ replicate (n - i) 0"
  by (simp add: take_Suc_conv_app_nth replicate_Suc[symmetric] Suc_diff_Suc del: replicate_Suc)

lemma MaxMin_loop_eq:
  "i \<le> n \<Longrightarrow> length xs = n \<Longrightarrow> length ys = n \<Longrightarrow>
   MaxMin_loop i n xs ys = (take i xs @ replicate (n - i) 0, take i ys @ replicate (n - i) 0)"
proof (induction i n xs ys rule: MaxMin_loop.induct)
  case (1 iVar n smax smin)
  show ?case
  proof (cases "iVar < n")
    case True
    have "MaxMin_loop iVar n smax smin = MaxMin_loop (Suc iVar) n (smax[iVar := 0]) (smin[iVar := 0])"
      using True by (subst MaxMin_loop.simps) simp
    also have "\<dots> = (take (Suc iVar) (smax[iVar := 0]) @ replicate (n - Suc iVar) 0,
                      take (Suc iVar) (smin[iVar := 0]) @ replicate (n - Suc iVar) 0)"
      using 1 True by simp
    finally show ?thesis
      using True 1(3,4) by (simp only: take_update_snoc)
  next
    case False
    then show ?thesis using 1(2,3,4) by (subst MaxMin_loop.simps) simp
  qed
qed

lemma length_new_double: "length (new_double junk n) = n"
  by (simp add: new_double_def)

text \<open>
  Claim C9. The constructor \<^verbatim>\<open>CTurbVariable(val_nDim, val_nVar, config)\<close> leaves
  \<open>Limiter\<close>, \<open>Solution_Max\<close> and \<open>Solution_Min\<close> as arrays of length \<open>nVar\<close> whose
  entries all are \<open>0.0\<close>, for every \<open>nVar\<close> and whatever the fresh memory held.
\<close>

theorem CTurbVariable_ctor_zero:
  "Limiter (CTurbVariable_ctor j1 j2 j3 base) = replicate (nVar base) 0 \<and>
   Solution_Max (CTurbVariable_ctor j1 j2 j3 base) = replicate (nVar base) 0 \<and>
   Solution_Min (CTurbVariable_ctor j1 j2 j3 base) = replicate (nVar base) 0"
  by (simp add: CTurbVariable_ctor_def Let_def Limiter_loop_eq MaxMin_loop_eq length_new_double)

theorem CTurbVariable_ctor_zero_witness:
  "Limiter (CTurbVariable_ctor (\<lambda>i. 1) (\<lambda>i. 2) (\<lambda>i. 3) base_example) = [0, 0] \<and>
   Solution_Max (CTurbVariable_ctor (\<lambda>i. 1) (\<lambda>i. 2) (\<lambda>i. 3) base_example) = [0, 0] \<and>
   Solution_Min (CTurbVariable_ctor (\<lambda>i. 1) (\<lambda>i. 2) (\<lambda>i. 3) base_example) = [0, 0]"
  using CTurbVariable_ctor_zero[of "\<lambda>i. 1" "\<lambda>i. 2" "\<lambda>i. 3" base_example]
  by (simp add: base_example_def numeral_2_eq_2)

subsection \<open>The constructors of the two closures\<close>

lemma andthen_simps:
  "andthen (Inl e) f = Inl e" "andthen (Inr x) f = f x"
  by (simp_all add: andthen_def)

text \<open>
  Claim C8. After \<^verbatim>\<open>CTurbSSTVariable(val_kine, val_omega, val_muT, nDim, nVar, constants,
  config)\<close>: \<open>Solution[0] = Solution_Old[0] = val_kine\<close>, \<open>Solution[1] = Solution_Old[1] =
  val_omega\<close>, \<open>muT = val_muT\<close> (which \<open>GetmuT\<close> returns), \<open>F1 = 1\<close>, \<open>F2 = 0\<close>,
  \<open>CDkw = 0\<close>, \<open>sigma_om2 = constants[3]\<close> and \<open>beta_star = constants[6]\<close>. After
  \<^verbatim>\<open>CTurbSAVariable(val_nu_tilde, val_muT, ...)\<close>: \<open>Solution[0] = Solution_Old[0] =
  val_nu_tilde\<close> and \<open>muT = val_muT\<close>. The current and the old solution agree on the
  components the constructors set. The constructors run without fault when the arrays
  they index are long enough (two solution entries and seven constants for SST, one
  solution entry for SA).
\<close>

theorem turbulence_constructors:
  "(2 \<le> length (Solution base) \<and> 2 \<le> length (Solution_Old base) \<and> 7 \<le> length constants \<longrightarrow>
     (\<exists>v. CTurbSSTVariable_ctor val_kine val_omega val_muT constants junk1 junk2 junk3 base = Inr v \<and>
        load (Solution v) 0 = Inr val_kine \<and> load (Solution_Old v) 0 = Inr val_kine \<and>
        load (Solution v) 1 = Inr val_omega \<and> load (Solution_Old v) 1 = Inr val_omega \<and>
        take 2 (Solution v) = take 2 (Solution_Old v) \<and>
        muT v = val_muT \<and> GetmuT v = val_muT \<and> F1 v = 1 \<and> F2 v = 0 \<and> CDkw v = 0 \<and>
        load constants 3 = Inr (sigma_om2 v) \<and> load constants 6 = Inr (beta_star v))) \<and>
   (1 \<le> length (Solution base') \<and> 1 \<le> length (Solution_Old base') \<longrightarrow>
     (\<exists>v. CTurbSAVariable_ctor val_nu_tilde val_muT' junk1' junk2' junk3' base' = Inr v \<and>
        load (Solution v) 0 = Inr val_nu_tilde \<and> load (Solution_Old v) 0 = Inr val_nu_tilde \<and>
        take 1 (Solution v) = take 1 (Solution_Old v) \<and>
        muT v = val_muT' \<and> GetmuT v = val_muT'))"
proof (intro conjI impI)
  assume h: "2 \<le> length (Solution base) \<and> 2 \<le> length (Solution_Old base) \<and> 7 \<le> length constants"
  define s where "s = Solution base"
  define t where "t = Solution_Old base"
  have t2: "take 2 (s[0 := val_kine, 1 := val_omega]) = [val_kine, val_omega]" if "2 \<le> length s" for s
  proof (cases s)
    case Nil
    with that show ?thesis by simp
  next
    case (Cons x xs)
    with that show ?thesis by (cases xs) (simp_all add: numeral_2_eq_2)
  qed
  show "\<exists>v. CTurbSSTVariable_ctor val_kine val_omega val_muT constants junk1 junk2 junk3 base = Inr v \<and>
        load (Solution v) 0 = Inr val_kine \<and> load (Solution_Old v) 0 = Inr val_kine \<and>
        load (Solution v) 1 = Inr val_omega \<and> load (Solution_Old v) 1 = Inr val_omega \<and>
        take 2 (Solution v) = take 2 (Solution_Old v) \<and>
        muT v = val_muT \<and> GetmuT v = val_muT \<and> F1 v = 1 \<and> F2 v = 0 \<and> CDkw v = 0 \<and>
        load constants 3 = Inr (sigma_om2 v) \<and> load constants 6 = Inr (beta_star v)"
    using h t2[of "Solution base"] t2[of "Solution_Old base"]
    by (auto simp: CTurbSSTVariable_ctor_def CTurbVariable_ctor_def Let_def store_def load_def
        andthen_simps GetmuT_def)
next
  assume h: "1 \<le> length (Solution base') \<and> 1 \<le> length (Solution_Old base')"
  have t1: "take 1 (s[0 := val_nu_tilde]) = [val_nu_tilde]" if "1 \<le> length s" for s
    using that by (cases s) simp_all
  show "\<exists>v. CTurbSAVariable_ctor val_nu_tilde val_muT' junk1' junk2' junk3' base' = Inr v \<and>
        load (Solution v) 0 = Inr val_nu_tilde \<and> load (Solution_Old v) 0 = Inr val_nu_tilde \<and>
        take 1 (Solution v) = take 1 (Solution_Old v) \<and>
        muT v = val_muT' \<and> GetmuT v = val_muT'"
    using h t1[of "Solution base'"] t1[of "Solution_Old base'"]
    by (auto simp: CTurbSAVariable_ctor_def CTurbVariable_ctor_def Let_def store_def load_def
        andthen_simps GetmuT_def)
qed

theorem turbulence_constructors_witness:
  "(\<exists>v. CTurbSSTVariable_ctor 3 4 6 [10, 11, 12, 13, 14, 15, 16] (\<lambda>i. 1) (\<lambda>i. 2) (\<lambda>i. 3) base_example = Inr v \<and>
      Solution v = [3, 4] \<and> Solution_Old v = [3, 4] \<and> GetmuT v = 6 \<and> F1 v = 1 \<and> F2 v = 0 \<and>
      CDkw v = 0 \<and> sigma_om2 v = 13 \<and> beta_star v = 16) \<and>
   (\<exists>v. CTurbSAVariable_ctor 3 6 (\<lambda>i. 1) (\<lambda>i. 2) (\<lambda>i. 3) base_example = Inr v \<and>
      load (Solution v) 0 = Inr 3 \<and> load (Solution_Old v) 0 = Inr 3 \<and> GetmuT v = 6)"
proof -
  have len: "2 \<le> length (Solution base_example) \<and> 2 \<le> length (Solution_Old base_example) \<and>
      7 \<le> length [10::real, 11, 12, 13, 14, 15, 16]"
    "1 \<le> length (Solution base_example) \<and> 1 \<le> length (Solution_Old base_example)"
    by (simp_all add: base_example_def)
  have c: "load [10::real, 11, 12, 13, 14, 15, 16] 3 = Inr 13" "load [10::real, 11, 12, 13, 14, 15, 16] 6 = Inr 16"
    by (simp_all add: load_def)
  have l: "length (Solution v) = 2 \<Longrightarrow> take 2 (Solution v) = Solution v" for v :: turb_variable
    by simp
  from turbulence_constructors[of base_example "[10, 11, 12, 13, 14, 15, 16]" 3 4 6 "\<lambda>i. 1" "\<lambda>i. 2" "\<lambda>i. 3"
      base_example 3 6 "\<lambda>i. 1" "\<lambda>i. 2" "\<lambda>i. 3"] len
  obtain v w where
    v: "CTurbSSTVariable_ctor 3 4 6 [10, 11, 12, 13, 14, 15, 16] (\<lambda>i. 1) (\<lambda>i. 2) (\<lambda>i. 3) base_example = Inr v"
      "GetmuT v = 6" "F1 v = 1" "F2 v = 0" "CDkw v = 0"
      "load [10, 11, 12, 13, 14, 15, 16] 3 = Inr (sigma_om2 v)"
      "load [10, 11, 12, 13, 14, 15, 16] 6 = Inr (beta_star v)" and
    w: "CTurbSAVariable_ctor 3 6 (\<lambda>i. 1) (\<lambda>i. 2) (\<lambda>i. 3) base_example = Inr w"
      "load (Solution w) 0 = Inr 3" "load (Solution_Old w) 0 = Inr 3" "GetmuT w = 6"
    by blast
  have sol: "Solution v = [3, 4]" "Solution_Old v = [3, 4]"
    using v(1)
    by (auto simp: CTurbSSTVariable_ctor_def CTurbVariable_ctor_def Let_def store_def load_def
        andthen_simps base_example_def)
  have "sigma_om2 v = 13" "beta_star v = 16"
    using v(6,7) c by simp_all
  with v w sol show ?thesis by blast
qed

subsection \<open>The blending functions\<close>

lemma CDkw_loop_eq:
  "load grad 0 = Inr g0 \<Longrightarrow> load grad 1 = Inr g1 \<Longrightarrow> n \<le> length g0 \<Longrightarrow> n \<le> length g1 \<Longrightarrow>
   CDkw_loop i n grad acc = Inr (acc + (\<Sum>j = i..<n. g0 ! j * g1 ! j))"
proof (induction i n grad acc rule: CDkw_loop.induct)
  case (1 iDim n grad acc)
  show ?case
  proof (cases "iDim < n")
    case True
    have l0: "load2 grad 0 iDim = Inr (g0 ! iDim)"
      unfolding load2_def "1.prems"(1) using "1.prems"(3) True by (simp add: load_def)
    have l1: "load2 grad 1 iDim = Inr (g1 ! iDim)"
      unfolding load2_def "1.prems"(2) using "1.prems"(4) True by (simp add: load_def)
    have "CDkw_loop iDim n grad acc = CDkw_loop (Suc iDim) n grad (acc + g0 ! iDim * g1 ! iDim)"
      using True by (subst CDkw_loop.simps) (simp add: l0 l1[simplified] andthen_simps)
    also have "\<dots> = Inr (acc + g0 ! iDim * g1 ! iDim + (\<Sum>j = Suc iDim..<n. g0 ! j * g1 ! j))"
      using "1.IH"[OF True "1.prems"] .
    finally show ?thesis
      using True by (simp add: sum.atLeast_Suc_lessThan add.assoc)
  next
    case False
    then show ?thesis by (subst CDkw_loop.simps) simp
  qed
qed

lemma pow_floor: "(10::real) powr (-20) = 1 / 10 ^ 20"
  by (simp add: powr_minus_divide)

lemma sst_example_run:
  "SetBlendingFunc 1 1 1 sst_example =
     Inr (sst_example\<lparr>CDkw := 3, F1 := tanh ((16 / 3) ^ 4), F2 := tanh (250\<^sup>2)\<rparr>)"
proof -
  have loop: "CDkw_loop 0 (nDim sst_example) (Gradient sst_example) 0 = Inr 3"
    using CDkw_loop_eq[of "Gradient sst_example" "[1, 0]" "[3, 5]" 2 0 0]
    by (simp add: sst_example_def load_def atLeast0LessThan lessThan_Suc numeral_2_eq_2)
  have m: "max (3::real) (10 powr (-20)) = 3"
    unfolding pow_floor by simp
  show ?thesis
    unfolding SetBlendingFunc_def loop andthen_simps
    by (simp add: sst_example_def load_def fdiv_def andthen_simps Let_def m power4_eq_xxxx)
qed

text \<open>
  Claim C3. \<^verbatim>\<open>SetBlendingFunc\<close> is a pure function of the point's own state: two
  objects with equal \<open>Solution\<close>, \<open>Gradient\<close>, \<open>sigma_om2\<close> and \<open>beta_star\<close> (both of the
  shape their constructor gives them) get equal \<open>F1\<close>, \<open>F2\<close> and \<open>CDkw\<close> from calls with
  equal arguments, or the same fault; and a call changes no field but \<open>F1\<close>, \<open>F2\<close> and
  \<open>CDkw\<close>. The function has one object as its only state, so no other grid point is
  read.
\<close>

theorem SetBlendingFunc_pure:
  assumes "Solution a = Solution b" and "Gradient a = Gradient b"
    and "sigma_om2 a = sigma_om2 b" and "beta_star a = beta_star b"
    and "gradient_shape a" and "gradient_shape b"
  shows "map_sum id (\<lambda>v'. (F1 v', F2 v', CDkw v')) (SetBlendingFunc val_viscosity val_dist val_density a) =
         map_sum id (\<lambda>v'. (F1 v', F2 v', CDkw v')) (SetBlendingFunc val_viscosity val_dist val_density b) \<and>
    (\<forall>a'. SetBlendingFunc val_viscosity val_dist val_density a = Inr a' \<longrightarrow>
       a' = a\<lparr>CDkw := CDkw a', F1 := F1 a', F2 := F2 a'\<rparr> \<and>
       Solution a' = Solution a \<and> Solution_Old a' = Solution_Old a \<and> Gradient a' = Gradient a \<and>
       muT a' = muT a \<and> Limiter a' = Limiter a \<and> Solution_Min a' = Solution_Min a \<and>
       Solution_Max a' = Solution_Max a)"
proof (intro conjI allI impI)
  have "Gradient a \<noteq> []" "Gradient b \<noteq> []"
    using assms(5,6) by (auto simp: gradient_shape_def)
  then have "length (hd (Gradient a)) = nDim a" "length (hd (Gradient b)) = nDim b"
    using assms(5,6) by (auto simp: gradient_shape_def neq_Nil_conv)
  then have n: "nDim a = nDim b"
    using assms(2) by simp
  show "map_sum id (\<lambda>v'. (F1 v', F2 v', CDkw v')) (SetBlendingFunc val_viscosity val_dist val_density a) =
         map_sum id (\<lambda>v'. (F1 v', F2 v', CDkw v')) (SetBlendingFunc val_viscosity val_dist val_density b)"
    unfolding SetBlendingFunc_def n assms(1-4)
    by (simp add: andthen_def Let_def split: sum.splits)
next
  fix a' assume r: "SetBlendingFunc val_viscosity val_dist val_density a = Inr a'"
  then obtain c f g where "a' = a\<lparr>CDkw := c, F1 := f, F2 := g\<rparr>"
    by (auto simp: SetBlendingFunc_def andthen_def Let_def split: sum.splits)
  then show "a' = a\<lparr>CDkw := CDkw a', F1 := F1 a', F2 := F2 a'\<rparr>"
    "Solution a' = Solution a" "Solution_Old a' = Solution_Old a" "Gradient a' = Gradient a"
    "muT a' = muT a" "Limiter a' = Limiter a" "Solution_Min a' = Solution_Min a"
    "Solution_Max a' = Solution_Max a"
    by simp_all
qed

theorem SetBlendingFunc_pure_witness:
  "map_sum id (\<lambda>v'. (F1 v', F2 v', CDkw v')) (SetBlendingFunc 1 1 1 sst_example) =
   map_sum id (\<lambda>v'. (F1 v', F2 v', CDkw v'))
     (SetBlendingFunc 1 1 1 (sst_example\<lparr>Solution_Old := [0, 0], muT := 0, F1 := 1 / 2\<rparr>)) \<and>
   (\<exists>a'. SetBlendingFunc 1 1 1 sst_example = Inr a' \<and>
      a' = sst_example\<lparr>CDkw := CDkw a', F1 := F1 a', F2 := F2 a'\<rparr> \<and> muT a' = 7 \<and>
      Solution a' = [4, 2])"
proof -
  have shape: "gradient_shape sst_example"
    "gradient_shape (sst_example\<lparr>Solution_Old := [0, 0], muT := 0, F1 := 1 / 2\<rparr>)"
    by (simp_all add: gradient_shape_def sst_example_def)
  have same: "Solution sst_example = Solution (sst_example\<lparr>Solution_Old := [0, 0], muT := 0, F1 := 1 / 2\<rparr>)"
    "Gradient sst_example = Gradient (sst_example\<lparr>Solution_Old := [0, 0], muT := 0, F1 := 1 / 2\<rparr>)"
    "sigma_om2 sst_example = sigma_om2 (sst_example\<lparr>Solution_Old := [0, 0], muT := 0, F1 := 1 / 2\<rparr>)"
    "beta_star sst_example = beta_star (sst_example\<lparr>Solution_Old := [0, 0], muT := 0, F1 := 1 / 2\<rparr>)"
    by simp_all
  have vals: "muT sst_example = 7" "Solution sst_example = [4, 2]"
    by (simp_all add: sst_example_def)
  from SetBlendingFunc_pure[OF same shape, of 1 1 1] sst_example_run vals
  show ?thesis by metis
qed

text \<open>
  Claim C1 gives \<open>F1\<close> and \<open>F2\<close> as formulas over the reals. The members hold what
  binary64 arithmetic and the library's \<^verbatim>\<open>sqrt\<close>, \<^verbatim>\<open>tanh\<close> and \<^verbatim>\<open>pow\<close> make of those
  formulas: each operation is rounded, a product can underflow to zero and a sum can
  cancel, and a quotient by zero is an infinity or a NaN with which the function goes
  on. The stored numbers are those of the formulas only up to an error for which the
  claim has no bound, so no theorem here states it.
\<close>

subsection \<open>Rounding to binary64\<close>

lemma rne_small: "\<bar>q\<bar> \<le> 1 / 2 \<Longrightarrow> rne q = 0"
proof (cases "0 \<le> q")
  case True
  assume a: "\<bar>q\<bar> \<le> 1 / 2"
  with True have f: "\<lfloor>q\<rfloor> = 0" by (simp add: floor_eq_iff)
  show ?thesis using a True by (simp add: rne_def f Let_def)
next
  case False
  assume a: "\<bar>q\<bar> \<le> 1 / 2"
  with False have f: "\<lfloor>q\<rfloor> = - 1" by (simp add: floor_eq_iff)
  show ?thesis using a False by (auto simp: rne_def f Let_def)
qed

lemma rne_cases: "rne q = \<lfloor>q\<rfloor> \<or> rne q = \<lfloor>q\<rfloor> + 1"
  by (simp add: rne_def Let_def)

lemma rne_large: "1 / 2 < \<bar>q\<bar> \<Longrightarrow> rne q \<noteq> 0"
proof (cases "0 \<le> q")
  case True
  assume a: "1 / 2 < \<bar>q\<bar>"
  have f0: "0 \<le> \<lfloor>q\<rfloor>" using True by simp
  show ?thesis
  proof (cases "\<lfloor>q\<rfloor> = 0")
    case z: True
    then show ?thesis using a True by (simp add: rne_def Let_def)
  next
    case False
    with f0 have "1 \<le> \<lfloor>q\<rfloor>" by linarith
    with rne_cases[of q] show ?thesis by linarith
  qed
next
  case False
  assume a: "1 / 2 < \<bar>q\<bar>"
  have f0: "\<lfloor>q\<rfloor> \<le> - 1" using False by (simp add: floor_le_iff)
  show ?thesis
  proof (cases "\<lfloor>q\<rfloor> = - 1")
    case True
    then show ?thesis using a False by (simp add: rne_def Let_def)
  next
    case False
    with f0 have "\<lfloor>q\<rfloor> \<le> - 2" by linarith
    with rne_cases[of q] show ?thesis by linarith
  qed
qed

lemma ulp_exp_tiny:
  assumes "x \<noteq> 0" and "\<bar>x\<bar> < 2 powr (- 1074)"
  shows "ulp_exp x = - 1074"
proof -
  have "log 2 \<bar>x\<bar> < - 1074"
    using assms by (simp add: log_less_iff)
  then have "\<lfloor>log 2 \<bar>x\<bar>\<rfloor> < - 1074"
    by (simp add: floor_less_iff)
  then have "\<lfloor>log 2 \<bar>x\<bar>\<rfloor> - 52 \<le> - 1074"
    by linarith
  then show ?thesis unfolding ulp_exp_def by (rule max_absorb2)
qed

lemma ulp_exp_ge: "- 1074 \<le> ulp_exp x"
  by (simp add: ulp_exp_def)

lemma ulp_le:
  assumes "2 powr (- 1074) \<le> \<bar>x\<bar>"
  shows "2 powr of_int (ulp_exp x) \<le> \<bar>x\<bar>"
proof -
  have x: "0 < \<bar>x\<bar>"
    using assms by (smt (verit) powr_gt_zero)
  have "of_int \<lfloor>log 2 \<bar>x\<bar>\<rfloor> - 52 \<le> log 2 \<bar>x\<bar>"
    by linarith
  then have a: "2 powr (of_int \<lfloor>log 2 \<bar>x\<bar>\<rfloor> - 52) \<le> \<bar>x\<bar>"
    using x by (simp add: le_log_iff)
  show ?thesis
  proof (cases "\<lfloor>log 2 \<bar>x\<bar>\<rfloor> - 52 \<le> - 1074")
    case True
    then have "ulp_exp x = - 1074" by (simp add: ulp_exp_def)
    with assms show ?thesis by simp
  next
    case False
    then have "ulp_exp x = \<lfloor>log 2 \<bar>x\<bar>\<rfloor> - 52" by (simp add: ulp_exp_def)
    with a show ?thesis by simp
  qed
qed

lemma rnd_underflow:
  assumes "\<bar>x\<bar> \<le> 2 powr (- 1075)"
  shows "rnd x = Fin 0"
proof (cases "x = 0")
  case True
  then show ?thesis by (simp add: rnd_def)
next
  case False
  have lt: "\<bar>x\<bar> < 2 powr (- 1074)"
  proof -
    have "(2::real) powr (- 1075) < 2 powr (- 1074)" by simp
    with assms show ?thesis by linarith
  qed
  have e: "ulp_exp x = - 1074"
    using False lt by (rule ulp_exp_tiny)
  have "\<bar>x / 2 powr (- 1074)\<bar> = \<bar>x\<bar> / 2 powr (- 1074)"
    by simp
  also have "\<dots> \<le> 2 powr (- 1075) / 2 powr (- 1074)"
    using assms by (simp add: divide_right_mono)
  also have "\<dots> = 1 / 2"
    by (simp add: powr_diff[symmetric])
  finally have "rne (x / 2 powr (- 1074)) = 0"
    by (rule rne_small)
  then show ?thesis
    using False by (simp add: rnd_def e)
qed

lemma rnd_nonzero:
  assumes "2 powr (- 1075) < \<bar>x\<bar>"
  shows "rnd x \<noteq> Fin 0"
proof -
  have x0: "x \<noteq> 0"
    using assms by (smt (verit) powr_gt_zero)
  have half: "1 / 2 < \<bar>x / 2 powr of_int (ulp_exp x)\<bar>"
  proof (cases "\<bar>x\<bar> < 2 powr (- 1074)")
    case True
    then have e: "ulp_exp x = - 1074"
      using x0 by (intro ulp_exp_tiny)
    have "1 / 2 = (2::real) powr (- 1075) / 2 powr (- 1074)"
      by (simp add: powr_diff[symmetric])
    also have "\<dots> < \<bar>x\<bar> / 2 powr (- 1074)"
      using assms by (simp add: divide_strict_right_mono)
    finally show ?thesis by (simp add: e)
  next
    case False
    then have "2 powr of_int (ulp_exp x) \<le> \<bar>x\<bar>"
      by (intro ulp_le) simp
    then have "1 \<le> \<bar>x\<bar> / 2 powr of_int (ulp_exp x)"
      by (simp add: le_divide_eq)
    moreover have "\<bar>x / 2 powr of_int (ulp_exp x)\<bar> = \<bar>x\<bar> / 2 powr of_int (ulp_exp x)"
      by simp
    ultimately show ?thesis by linarith
  qed
  then have r: "rne (x / 2 powr of_int (ulp_exp x)) \<noteq> 0"
    by (rule rne_large)
  show ?thesis
    using x0 r by (simp add: rnd_def Let_def)
qed

text \<open>A real rounds to zero exactly when its magnitude is at most half the least positive
  binary64 value.\<close>

lemma threshold: "(2::real) powr (- 1075) = 1 / 2 ^ 1075"
  by (simp add: powr_minus_divide)

lemma rnd_zero_iff: "rnd x = Fin 0 \<longleftrightarrow> \<bar>x\<bar> \<le> 1 / 2 ^ 1075"
proof
  assume "rnd x = Fin 0"
  then have "\<not> 2 powr (- 1075) < \<bar>x\<bar>"
    using rnd_nonzero[of x] by blast
  then show "\<bar>x\<bar> \<le> 1 / 2 ^ 1075"
    unfolding threshold by linarith
next
  assume "\<bar>x\<bar> \<le> 1 / 2 ^ 1075"
  then have "\<bar>x\<bar> \<le> 2 powr (- 1075)"
    unfolding threshold .
  then show "rnd x = Fin 0"
    by (rule rnd_underflow)
qed

lemma rnd_0: "rnd 0 = Fin 0"
  by (simp add: rnd_def)

text \<open>A number with a significand of at most 53 bits and an exponent in the range of
  binary64 is its own rounding.\<close>

lemma rne_of_int: "rne (of_int n) = n"
  by (simp add: rne_def)

lemma rnd_exact:
  assumes m: "\<bar>m\<bar> < 2 ^ 53" and e: "- 1074 \<le> e"
    and r: "\<bar>of_int m * 2 powr of_int e\<bar> < (2::real) ^ 1024"
  shows "rnd (of_int m * 2 powr of_int e) = Fin (of_int m * 2 powr of_int e)"
proof (cases "m = 0")
  case True
  then show ?thesis by (simp add: rnd_def)
next
  case False
  define x :: real where "x = of_int m * 2 powr of_int e"
  define u where "u = ulp_exp x"
  have x0: "x \<noteq> 0"
    using False by (simp add: x_def)
  have ax: "\<bar>x\<bar> = of_int \<bar>m\<bar> * 2 powr of_int e"
    by (simp add: x_def abs_mult)
  have "1 \<le> \<bar>m\<bar>"
    using False by linarith
  then have m1: "(1::real) \<le> of_int \<bar>m\<bar>"
    by (simp only: of_int_1_le_iff)
  have lm: "log 2 (of_int \<bar>m\<bar>) < 53"
  proof -
    have "(of_int \<bar>m\<bar> :: real) < of_int (2 ^ 53)"
      using m by (simp only: of_int_less_iff)
    then have "(of_int \<bar>m\<bar> :: real) < 2 ^ 53"
      by simp
    also have "(2::real) ^ 53 = 2 powr real (53::nat)"
      by (rule powr_realpow[symmetric]) simp
    finally show ?thesis
      using m1 by (simp add: log_less_iff)
  qed
  have lx: "log 2 \<bar>x\<bar> = log 2 (of_int \<bar>m\<bar>) + of_int e"
  proof -
    have "log 2 (of_int \<bar>m\<bar> * 2 powr of_int e) = log 2 (of_int \<bar>m\<bar>) + log 2 (2 powr of_int e)"
      by (rule log_mult_pos) (use m1 in simp_all)
    then show ?thesis
      unfolding ax by simp
  qed
  have "log 2 \<bar>x\<bar> < of_int (e + 52) + 1"
    using lm lx by simp
  then have "\<lfloor>log 2 \<bar>x\<bar>\<rfloor> \<le> e + 52"
    by (simp only: floor_le_iff)
  then have ue: "u \<le> e"
    using e by (simp add: u_def ulp_exp_def)
  have q: "x / 2 powr of_int u = of_int (m * 2 ^ nat (e - u))"
  proof -
    have "x / 2 powr of_int u = of_int m * ((2::real) powr of_int e / 2 powr of_int u)"
      by (simp add: x_def)
    also have "(2::real) powr of_int e / 2 powr of_int u = 2 powr (of_int e - of_int u)"
      by (simp add: powr_diff)
    also have "(of_int e - of_int u :: real) = real (nat (e - u))"
      using ue by simp
    also have "(2::real) powr real (nat (e - u)) = 2 ^ nat (e - u)"
      by (simp add: powr_realpow)
    finally show ?thesis by simp
  qed
  have y: "of_int (rne (x / 2 powr of_int u)) * 2 powr of_int u = x"
  proof -
    have "of_int (rne (x / 2 powr of_int u)) * 2 powr of_int u
        = (x / 2 powr of_int u) * 2 powr of_int u"
      unfolding q rne_of_int ..
    then show ?thesis by simp
  qed
  have "rnd x = Fin x"
    using x0 r y unfolding rnd_def Let_def u_def[symmetric] x_def[symmetric]
    by (auto simp: abs_less_iff)
  then show ?thesis
    by (simp add: x_def)
qed

lemma rnd_2: "rnd 2 = Fin 2"
  using rnd_exact[of 1 1] by simp

lemma rnd_1: "rnd 1 = Fin 1"
  using rnd_exact[of 1 0] by simp

lemma rnd_half: "rnd (1 / 2) = Fin (1 / 2)"
  using rnd_exact[of 1 "- 1"] by (simp add: powr_minus_divide)

lemma rnd_quarter: "rnd (1 / 4) = Fin (1 / 4)"
  using rnd_exact[of 1 "- 2"] by (simp add: powr_minus_divide)

lemma rnd_d600: "rnd (1 / 2 ^ 600) = Fin (1 / 2 ^ 600)"
  using rnd_exact[of 1 "- 600"] by (simp add: powr_minus_divide)

lemma rnd_tiny_d600: "rnd (6646139978924579 / 2 ^ 719) = Fin (6646139978924579 / 2 ^ 719)"
  using rnd_exact[of 6646139978924579 "- 719"] by (simp add: powr_minus_divide)

lemma rnd_tiny_d1200: "rnd (6646139978924579 / 2 ^ 1319) = Fin 0"
  by (simp add: rnd_zero_iff)

lemma rnd_d1200: "rnd (1 / 2 ^ 1200) = Fin 0"
  by (simp add: rnd_zero_iff)

lemma rnd_tiny_half: "rnd (6646139978924579 / 2 ^ 120) = Fin (6646139978924579 / 2 ^ 120)"
  using rnd_exact[of 6646139978924579 "- 120"] by (simp add: powr_minus_divide)

subsection \<open>The divisors of the blending functions\<close>

lemma fmul_nonzero:
  assumes "a \<noteq> Fin 0" and "b \<noteq> Fin 0" and "\<not> underflows a b"
  shows "fmul a b \<noteq> Fin 0"
proof (cases a)
  case (Fin x)
  note a = this
  show ?thesis
  proof (cases b)
    case (Fin y)
    with a assms have "\<not> \<bar>x * y\<bar> \<le> 1 / 2 ^ 1075"
      by (simp add: underflows_def)
    then show ?thesis
      using a Fin by (simp add: fmul_def rnd_zero_iff)
  qed (use a assms in \<open>simp_all add: fmul_def dsign_def\<close>)
next
  case PInf
  then show ?thesis using assms by (cases b) (simp_all add: fmul_def dsign_def)
next
  case NInf
  then show ?thesis using assms by (cases b) (simp_all add: fmul_def dsign_def)
next
  case NaN
  then show ?thesis by (cases b) (simp_all add: fmul_def)
qed

lemma fmul_zero_iff:
  assumes "b = Fin y" and "y \<noteq> 0"
  shows "fmul a b = Fin 0 \<longleftrightarrow> a = Fin 0 \<or> underflows a b"
proof (cases a)
  case (Fin x)
  show ?thesis
  proof (cases "x = 0")
    case True
    then show ?thesis using Fin assms by (simp add: fmul_def rnd_0)
  next
    case False
    then show ?thesis using Fin assms by (simp add: fmul_def rnd_zero_iff underflows_def)
  qed
qed (use assms in \<open>simp_all add: fmul_def dsign_def underflows_def\<close>)

lemma flt_irrefl: "\<not> flt a a"
  by (cases a) (simp_all add: flt_def)

lemma cmax_not_below: "\<not> flt (cmax cd1 tiny) tiny"
  by (simp add: cmax_def flt_irrefl)

lemma cmax_nonzero:
  assumes "flt (Fin 0) tiny"
  shows "cmax cd1 tiny \<noteq> Fin 0"
proof (cases "flt cd1 tiny")
  case True
  have "tiny \<noteq> Fin 0"
    using assms by (auto simp: flt_def)
  with True show ?thesis by (simp add: cmax_def)
next
  case False
  then have "cd1 \<noteq> Fin 0"
    using assms by auto
  with False show ?thesis by (simp add: cmax_def)
qed

text \<open>
  Claim C2, as amended. In a call of \<^verbatim>\<open>SetBlendingFunc\<close> with \<open>Solution[1] \<noteq> 0\<close>,
  \<open>val_dist \<noteq> 0\<close>, \<open>val_density \<noteq> 0\<close> and \<open>beta_star \<noteq> 0\<close>, in binary64 arithmetic and
  with a positive \<^verbatim>\<open>pow(10.0, -20.0)\<close>: the divisor \<^verbatim>\<open>Solution[1]\<close> is not zero; the
  cross diffusion \<^verbatim>\<open>CDkw\<close> is not below \<^verbatim>\<open>pow(10.0, -20.0)\<close> and not zero after its
  clamp, whatever the gradients are;
  and no divisor is zero unless one of the multiplications in the three products
  \<^verbatim>\<open>beta_star*Solution[1]*val_dist\<close>, \<^verbatim>\<open>val_density*val_dist*val_dist*Solution[1]\<close>
  and \<^verbatim>\<open>CDkw*val_dist*val_dist\<close> underflows to zero.
\<close>

theorem SetBlendingFunc_divisors_binary64:
  assumes "omega \<noteq> Fin 0" and "val_dist \<noteq> Fin 0" and "val_density \<noteq> Fin 0"
    and "beta \<noteq> Fin 0" and "flt (Fin 0) tiny"
  shows "SetBlendingFunc_divisors cd1 tiny beta omega val_dist val_density ! 0 \<noteq> Fin 0 \<and>
     \<not> flt (cmax cd1 tiny) tiny \<and> cmax cd1 tiny \<noteq> Fin 0 \<and>
     (\<not> SetBlendingFunc_underflows cd1 tiny beta omega val_dist val_density \<longrightarrow>
        Fin 0 \<notin> set (SetBlendingFunc_divisors cd1 tiny beta omega val_dist val_density))"
proof -
  have c: "cmax cd1 tiny \<noteq> Fin 0"
    using assms(5) by (rule cmax_nonzero)
  have d109: "fmul (fmul beta omega) val_dist \<noteq> Fin 0"
    if "\<not> underflows beta omega" "\<not> underflows (fmul beta omega) val_dist"
    using that assms by (intro fmul_nonzero)
  have d110: "fmul (fmul (fmul val_density val_dist) val_dist) omega \<noteq> Fin 0"
    if "\<not> underflows val_density val_dist" "\<not> underflows (fmul val_density val_dist) val_dist"
      "\<not> underflows (fmul (fmul val_density val_dist) val_dist) omega"
    using that assms by (intro fmul_nonzero)
  have d112: "fmul (fmul (cmax cd1 tiny) val_dist) val_dist \<noteq> Fin 0"
    if "\<not> underflows (cmax cd1 tiny) val_dist" "\<not> underflows (fmul (cmax cd1 tiny) val_dist) val_dist"
    using that assms c by (intro fmul_nonzero)
  have mem: "Fin 0 \<in> set (SetBlendingFunc_divisors cd1 tiny beta omega val_dist val_density) \<longleftrightarrow>
      omega = Fin 0 \<or> fmul (fmul beta omega) val_dist = Fin 0 \<or>
      fmul (fmul (fmul val_density val_dist) val_dist) omega = Fin 0 \<or>
      fmul (fmul (cmax cd1 tiny) val_dist) val_dist = Fin 0"
    unfolding SetBlendingFunc_divisors_def Let_def by (simp add: eq_commute)
  have "SetBlendingFunc_underflows cd1 tiny beta omega val_dist val_density"
    if "Fin 0 \<in> set (SetBlendingFunc_divisors cd1 tiny beta omega val_dist val_density)"
    using that assms(1) d109 d110 d112
    unfolding mem SetBlendingFunc_underflows_def Let_def
    by blast
  moreover have "SetBlendingFunc_divisors cd1 tiny beta omega val_dist val_density ! 0 = omega"
    by (simp add: SetBlendingFunc_divisors_def Let_def)
  moreover have "\<not> flt (cmax cd1 tiny) tiny"
    by (rule cmax_not_below)
  ultimately show ?thesis
    using c assms(1) by auto
qed

lemmas b64_defs = SetBlendingFunc_divisors_def SetBlendingFunc_underflows_def Let_def cmax_def
  flt_def fmul_def underflows_def tiny_example_def

theorem SetBlendingFunc_divisors_binary64_witness:
  "Fin 2 \<noteq> Fin 0 \<and> Fin (1 / 2) \<noteq> Fin 0 \<and> Fin 1 \<noteq> Fin 0 \<and> flt (Fin 0) tiny_example \<and>
   cmax (Fin (- 3)) tiny_example = tiny_example \<and> \<not> flt (cmax (Fin (- 3)) tiny_example) tiny_example \<and>
   \<not> SetBlendingFunc_underflows (Fin (- 3)) tiny_example (Fin 1) (Fin 2) (Fin (1 / 2)) (Fin 1) \<and>
   Fin 0 \<notin> set (SetBlendingFunc_divisors (Fin (- 3)) tiny_example (Fin 1) (Fin 2) (Fin (1 / 2)) (Fin 1))"
proof -
  have nu: "\<not> SetBlendingFunc_underflows (Fin (- 3)) tiny_example (Fin 1) (Fin 2) (Fin (1 / 2)) (Fin 1)"
    by (simp add: b64_defs rnd_1 rnd_2 rnd_half rnd_quarter rnd_tiny_half[simplified])
  have pos: "flt (Fin 0) tiny_example"
    by (simp add: flt_def tiny_example_def)
  have cl: "cmax (Fin (- 3)) tiny_example = tiny_example"
    by (simp add: cmax_def flt_def tiny_example_def)
  from SetBlendingFunc_divisors_binary64[of "Fin 2" "Fin (1 / 2)" "Fin 1" "Fin 1" tiny_example "Fin (- 3)"]
    nu pos cl show ?thesis by simp
qed

text \<open>
  For a finite wall distance and a finite \<^verbatim>\<open>Solution[1]\<close> the condition is exact: a
  divisor is zero if and only if one of the multiplications underflows.
\<close>

lemma SetBlendingFunc_zero_divisor_iff:
  assumes "omega = Fin w" and "w \<noteq> 0" and "val_dist = Fin d" and "d \<noteq> 0"
    and "val_density \<noteq> Fin 0" and "beta \<noteq> Fin 0" and "flt (Fin 0) tiny"
  shows "Fin 0 \<in> set (SetBlendingFunc_divisors cd1 tiny beta omega val_dist val_density) \<longleftrightarrow>
     SetBlendingFunc_underflows cd1 tiny beta omega val_dist val_density"
proof -
  have c: "cmax cd1 tiny \<noteq> Fin 0"
    using assms(7) by (rule cmax_nonzero)
  have zw: "fmul a omega = Fin 0 \<longleftrightarrow> a = Fin 0 \<or> underflows a omega" for a
    using assms(1,2) by (rule fmul_zero_iff)
  have zd: "fmul a val_dist = Fin 0 \<longleftrightarrow> a = Fin 0 \<or> underflows a val_dist" for a
    using assms(3,4) by (rule fmul_zero_iff)
  have w0: "omega \<noteq> Fin 0"
    using assms(1,2) by simp
  have mem: "Fin 0 \<in> set (SetBlendingFunc_divisors cd1 tiny beta omega val_dist val_density) \<longleftrightarrow>
      omega = Fin 0 \<or> fmul (fmul beta omega) val_dist = Fin 0 \<or>
      fmul (fmul (fmul val_density val_dist) val_dist) omega = Fin 0 \<or>
      fmul (fmul (cmax cd1 tiny) val_dist) val_dist = Fin 0"
    unfolding SetBlendingFunc_divisors_def Let_def by (simp add: eq_commute)
  show ?thesis
    unfolding mem SetBlendingFunc_underflows_def Let_def zw zd
    using c w0 assms(5,6) by blast
qed

text \<open>
  Without the condition on the multiplications the claim fails. With
  \<open>val_dist = 2\<^sup>-\<^sup>6\<^sup>0\<^sup>0\<close>, \<open>val_density = Solution[1] = beta_star = 1\<close> and a gradient
  of zero all four preconditions hold. \<^verbatim>\<open>val_density*val_dist\<close> is \<open>2\<^sup>-\<^sup>6\<^sup>0\<^sup>0\<close>, its
  product with \<^verbatim>\<open>val_dist\<close> is \<open>2\<^sup>-\<^sup>1\<^sup>2\<^sup>0\<^sup>0\<close> and rounds to zero: the divisor of line
  110 is zero. \<^verbatim>\<open>CDkw\<close> is zero before the clamp and \<^verbatim>\<open>pow(10.0, -20.0)\<close> after it,
  its product with \<^verbatim>\<open>val_dist\<close> is exact, and the product of that with \<^verbatim>\<open>val_dist\<close>
  rounds to zero: the divisor of line 112, which the clamp is to keep from zero, is
  zero as well.
\<close>

theorem SetBlendingFunc_underflow_counterexample:
  "Fin 1 \<noteq> Fin 0 \<and> Fin (1 / 2 ^ 600) \<noteq> Fin 0 \<and>
   cmax (Fin 0) tiny_example = tiny_example \<and>
   SetBlendingFunc_divisors (Fin 0) tiny_example (Fin 1) (Fin 1) (Fin (1 / 2 ^ 600)) (Fin 1) ! 2 = Fin 0 \<and>
   SetBlendingFunc_divisors (Fin 0) tiny_example (Fin 1) (Fin 1) (Fin (1 / 2 ^ 600)) (Fin 1) ! 3 = Fin 0"
  by (simp add: SetBlendingFunc_divisors_def Let_def fmul_def cmax_def flt_def tiny_example_def
      rnd_d600[simplified] rnd_d1200[simplified] rnd_tiny_d600[simplified]
      rnd_tiny_d1200[simplified] rnd_0)

section \<open>Properties of the configuration options\<close>

declare first_loop.simps [simp del] second_loop.simps [simp del] marker_periodic_loop.simps [simp del]
  param_loop.simps [simp del] dv_loop.simps [simp del]

subsection \<open>The example extractor\<close>

lemma extract_decimal_42: "extract_decimal ''42'' = Some (42, [])"
  by (simp add: extract_decimal_def isspace_def isdigit_def digits_value_def Let_def)

lemma extract_decimal_abc: "extract_decimal ''abc'' = None"
  by (simp add: extract_decimal_def isspace_def isdigit_def digits_value_def Let_def)

subsection \<open>COptionDouble\<close>

text \<open>
  Claim C5, as amended. \<^verbatim>\<open>COptionDouble::SetValue(v)\<close> returns a non-empty message
  exactly when \<open>v\<close> does not have exactly one element (it is empty or has several) or
  the extraction of a number from its single element fails; it then leaves the
  referenced field unchanged. Otherwise it returns the empty string and the field holds
  the number extracted.
\<close>

theorem COptionDouble_SetValue_cases:
  "(fst (COptionDouble_SetValue extract name v field) \<noteq> '''' \<longleftrightarrow>
      length v \<noteq> 1 \<or> extract (v ! 0) = None) \<and>
   (fst (COptionDouble_SetValue extract name v field) \<noteq> '''' \<longrightarrow>
      snd (COptionDouble_SetValue extract name v field) = field) \<and>
   (fst (COptionDouble_SetValue extract name v field) = '''' \<longrightarrow>
      (\<exists>x rest. extract (v ! 0) = Some (x, rest) \<and>
         snd (COptionDouble_SetValue extract name v field) = x))"
  by (auto simp: COptionDouble_SetValue_def optionCheckMultipleValues_def badValue_def
      ss_get_double_def ss_new_def Let_def split: option.splits)

theorem COptionDouble_SetValue_cases_witness:
  "COptionDouble_SetValue extract_decimal ''CFL_NUMBER'' [''42''] 3 = ('''', 42) \<and>
   fst (COptionDouble_SetValue extract_decimal ''CFL_NUMBER'' [''abc''] 3) \<noteq> '''' \<and>
   snd (COptionDouble_SetValue extract_decimal ''CFL_NUMBER'' [''abc''] 3) = 3 \<and>
   snd (COptionDouble_SetValue extract_decimal ''CFL_NUMBER'' [''4'', ''2''] 3) = 3"
  using COptionDouble_SetValue_cases[of extract_decimal "''CFL_NUMBER''" "[''42'']" 3]
    COptionDouble_SetValue_cases[of extract_decimal "''CFL_NUMBER''" "[''abc'']" 3]
    COptionDouble_SetValue_cases[of extract_decimal "''CFL_NUMBER''" "[''4'', ''2'']" 3]
  by (auto simp: extract_decimal_42 extract_decimal_abc prod_eq_iff)

text \<open>
  The claim as it was stated names only a list of more than one element and a single
  element that does not parse. On the empty list the code returns an error as well,
  the field unchanged, though the list has neither several elements nor a single one.
\<close>

theorem COptionDouble_SetValue_empty_counterexample:
  "fst (COptionDouble_SetValue extract_decimal ''CFL_NUMBER'' [] 3) \<noteq> '''' \<and>
   snd (COptionDouble_SetValue extract_decimal ''CFL_NUMBER'' [] 3) = 3 \<and>
   \<not> (1 < length ([] :: string list) \<or>
      (length ([] :: string list) = 1 \<and> extract_decimal (([] :: string list) ! 0) = None))"
  by (simp add: COptionDouble_SetValue_def optionCheckMultipleValues_def)

subsection \<open>CDVParamOptionRef\<close>

lemma counted_nDV_one: "counted_nDV [''1''] = 1"
  by (simp add: counted_nDV_def)

text \<open>
  Claim C6, as amended. When the option value gives a positive number of design
  variables while \<open>Design_Variable\<close> still is \<^verbatim>\<open>NULL\<close>,
  \<^verbatim>\<open>CDVParamOptionRef::SetValue\<close> writes its two lines to \<^verbatim>\<open>cerr\<close> and throws
  before it allocates anything: \<open>ParamDV\<close> and \<open>Design_Variable\<close> are as they were, and
  \<open>nDV\<close> holds the number counted.
\<close>

theorem CDVParamOptionRef_unallocated_throws:
  assumes "val \<noteq> []" and "0 < counted_nDV val" and "Design_Variable st = None"
  shows "CDVParamOptionRef_SetValue extract val st =
     Thrown [''Error in CDVParamOptionRef::SetValue(): Design_Variable array has not been allocated.'',
             ''Check that DV_KIND appears before DV_PARAM in configuration file.'']
       (st\<lparr>nDV := counted_nDV val\<rparr>) \<and>
     ParamDV (st\<lparr>nDV := counted_nDV val\<rparr>) = ParamDV st \<and>
     Design_Variable (st\<lparr>nDV := counted_nDV val\<rparr>) = Design_Variable st"
  using assms by (simp add: CDVParamOptionRef_SetValue_def Let_def)

theorem CDVParamOptionRef_unallocated_throws_witness:
  "CDVParamOptionRef_SetValue extract_decimal [''1''] dv_example =
     Thrown [''Error in CDVParamOptionRef::SetValue(): Design_Variable array has not been allocated.'',
             ''Check that DV_KIND appears before DV_PARAM in configuration file.'']
       \<lparr>nDV = 1, ParamDV = None, Design_Variable = None\<rparr>"
  using CDVParamOptionRef_unallocated_throws[of "[''1'']" dv_example extract_decimal]
  by (simp add: counted_nDV_one dv_example_def)

text \<open>
  The claim as it was stated has the state unchanged on this path. The count is kept in
  \<open>nDV\<close> itself: for the value \<open>1\<close> and \<open>nDV = 0\<close> before the call, the exception
  leaves \<open>nDV = 1\<close>.
\<close>

theorem CDVParamOptionRef_state_changed_counterexample:
  "CDVParamOptionRef_SetValue extract_decimal [''1''] dv_example =
     Thrown [''Error in CDVParamOptionRef::SetValue(): Design_Variable array has not been allocated.'',
             ''Check that DV_KIND appears before DV_PARAM in configuration file.'']
       \<lparr>nDV = 1, ParamDV = None, Design_Variable = None\<rparr> \<and>
   0 < counted_nDV [''1''] \<and> Design_Variable dv_example = None \<and>
   \<lparr>nDV = 1, ParamDV = None, Design_Variable = None\<rparr> \<noteq> dv_example"
  by (simp add: CDVParamOptionRef_SetValue_def Let_def counted_nDV_def dv_example_def)

subsection \<open>The periodic markers and the token NONE\<close>

lemma COptionPeriodic_not_divisible:
  assumes "length option_value mod 11 \<noteq> 0" and "option_value \<noteq> [''NONE'']"
  shows "COptionPeriodic_SetValue extract name option_value st =
     Some (name @ '': must have a number of entries divisible by 11'', set_null st)"
proof -
  have "\<not> (length option_value = 1 \<and> option_value ! 0 = ''NONE'')"
  proof
    assume h: "length option_value = 1 \<and> option_value ! 0 = ''NONE''"
    then obtain x where "option_value = [x]"
      by (cases option_value) auto
    with h assms(2) show False by simp
  qed
  with assms(1) show ?thesis
    by (simp add: COptionPeriodic_SetValue_def Let_def)
qed

lemma CMarkerPeriodicRef_not_divisible:
  assumes "Marker_PerBound st = None" and "Marker_PerDonor st = None"
    and "Periodic_RotCenter st = None" and "Periodic_RotAngles st = None"
    and "Periodic_Translation st = None"
    and "length val mod 11 \<noteq> 0" and "length val < 2 ^ 31"
  shows "CMarkerPeriodicRef_SetValue extract val st =
     (if val ! 0 = ''NONE'' then Returned [] (st\<lparr>nMarker_PerBound := 0\<rparr>)
      else Thrown [''Error in CMarkerPeriodicRef::SetValue(): incorrect number of MARKER_PERIODIC parameters in the configuration file.''] st)"
  using assms by (simp add: CMarkerPeriodicRef_SetValue_def)

text \<open>
  Claim C7. A periodic-marker value whose number of entries is no multiple of 11, and
  which is not the single token \<open>NONE\<close>, is to be rejected by both classes. The value
  \<open>NONE x\<close> of two tokens is such a value. \<^verbatim>\<open>COptionPeriodic::SetValue\<close> rejects it
  with its message and resets its members; \<^verbatim>\<open>CMarkerPeriodicRef::SetValue\<close> compares
  only the first token with \<open>NONE\<close>, sets the number of markers to zero and returns with
  nothing written to \<^verbatim>\<open>cerr\<close>.
\<close>

theorem periodic_NONE_prefix_accepted:
  "CMarkerPeriodicRef_SetValue extract_decimal [''NONE'', ''x''] marker_periodic_example =
     Returned [] (marker_periodic_example\<lparr>nMarker_PerBound := 0\<rparr>) \<and>
   COptionPeriodic_SetValue extract_decimal ''MARKER_PERIODIC'' [''NONE'', ''x''] periodic_example =
     Some (''MARKER_PERIODIC: must have a number of entries divisible by 11'',
           set_null periodic_example)"
  by (simp add: CMarkerPeriodicRef_SetValue_def COptionPeriodic_SetValue_def
      marker_periodic_example_def Let_def)

theorem periodic_NONE_prefix_accepted_witness:
  "\<exists>st. CMarkerPeriodicRef_SetValue extract_decimal [''NONE'', ''x''] marker_periodic_example =
     Returned [] st \<and> nMarker_PerBound st = 0 \<and> Marker_PerBound st = None"
  using periodic_NONE_prefix_accepted by (simp add: marker_periodic_example_def)

text \<open>
  Claim C10. The single token \<open>NONE\<close> means no markers: \<^verbatim>\<open>COptionPeriodic::SetValue\<close>
  returns the empty string on it, with \<open>size = 0\<close> and its five arrays \<^verbatim>\<open>NULL\<close>, and
  \<^verbatim>\<open>CMarkerOptionRef::SetValue\<close> sets the number of markers to zero. An empty list
  given to \<^verbatim>\<open>CMarkerOptionRef::SetValue\<close> is a fatal error: two lines on \<^verbatim>\<open>cerr\<close> and
  an exception, the members untouched.
\<close>

theorem NONE_means_no_markers:
  "COptionPeriodic_SetValue extract name [''NONE''] st = Some ('''', set_null st) \<and>
   size_ref (set_null st) = 0 \<and> marker_bound (set_null st) = None \<and>
   marker_donor (set_null st) = None \<and> rot_center (set_null st) = None \<and>
   rot_angles (set_null st) = None \<and> translation (set_null st) = None \<and>
   CMarkerOptionRef_SetValue [''NONE''] m =
     Returned [] (m\<lparr>marker_ref := Some [''NONE''], num_marker := 0\<rparr>) \<and>
   CMarkerOptionRef_SetValue [] m =
     Thrown [''Error in CMarkerOptionRef::SetValue(): marker option in config file with no value'',
             ''Use NONE for no markers.''] m"
  by (simp add: COptionPeriodic_SetValue_def set_null_def CMarkerOptionRef_SetValue_def Let_def)

theorem NONE_means_no_markers_witness:
  "COptionPeriodic_SetValue extract_decimal ''MARKER_PERIODIC'' [''NONE''] periodic_example =
     Some ('''', \<lparr>size_ref = 0, marker_bound = None, marker_donor = None, rot_center = None,
                  rot_angles = None, translation = None\<rparr>) \<and>
   CMarkerOptionRef_SetValue [''NONE''] marker_example =
     Returned [] \<lparr>marker_ref = Some [''NONE''], num_marker = 0\<rparr> \<and>
   (\<exists>cerr. CMarkerOptionRef_SetValue [] marker_example = Thrown cerr marker_example \<and> cerr \<noteq> [])"
  using NONE_means_no_markers[of extract_decimal "''MARKER_PERIODIC''" periodic_example marker_example]
  by (simp add: set_null_def periodic_example_def marker_example_def)

subsection \<open>COptionPeriodic: the mirrored entries\<close>

lemma get_token:
  assumes "clean ss" and "reads_whole extract t"
  shows "fst (ss_get_double extract (ss_put '' '' (ss_put t ss))) = number_of extract t"
    and "number_of extract t \<noteq> None \<Longrightarrow>
           clean (snd (ss_get_double extract (ss_put '' '' (ss_put t ss))))"
proof -
  have u: "unread (ss_put '' '' (ss_put t ss)) = t @ '' '' \<or>
           unread (ss_put '' '' (ss_put t ss)) = '' '' @ t @ '' ''"
    using assms(1) by (auto simp: clean_def ss_put_def)
  have g: "good (ss_put '' '' (ss_put t ss))"
    using assms(1) by (simp add: clean_def ss_put_def)
  have e: "extract (unread (ss_put '' '' (ss_put t ss))) = extract (t @ '' '')"
    using u assms(2) by (auto simp: reads_whole_def)
  show "fst (ss_get_double extract (ss_put '' '' (ss_put t ss))) = number_of extract t"
    using g by (simp add: ss_get_double_def e number_of_def split: option.splits)
  show "clean (snd (ss_get_double extract (ss_put '' '' (ss_put t ss))))"
    if "number_of extract t \<noteq> None"
    using that g assms(2)
    by (auto simp: ss_get_double_def e number_of_def reads_whole_def clean_def split: option.splits)
qed

lemma get_doubles_whole:
  "clean ss \<Longrightarrow> list_all (reads_whole extract) toks \<Longrightarrow>
   get_doubles extract toks ss = (cs, ss') \<Longrightarrow> all_read cs \<Longrightarrow>
   cs = map (number_of extract) toks \<and> clean ss'"
proof (induction toks arbitrary: ss cs ss')
  case Nil
  then show ?case by simp
next
  case (Cons t toks)
  obtain r ss1 where step: "ss_get_double extract (ss_put '' '' (ss_put t ss)) = (r, ss1)"
    by (cases "ss_get_double extract (ss_put '' '' (ss_put t ss))")
  have rw: "reads_whole extract t" and rest: "list_all (reads_whole extract) toks"
    using Cons.prems(2) by simp_all
  have r: "r = number_of extract t"
    using get_token(1)[OF Cons.prems(1) rw] step by simp
  show ?case
  proof (cases r)
    case None
    with Cons.prems(3,4) step show ?thesis
      by (auto simp: all_read_def)
  next
    case (Some x)
    then have c1: "clean ss1"
      using get_token(2)[OF Cons.prems(1) rw] r step by simp
    obtain cs1 ss2 where tl: "get_doubles extract toks ss1 = (cs1, ss2)"
      by (cases "get_doubles extract toks ss1")
    have res: "cs = Some x # cs1" "ss' = ss2"
      using Cons.prems(3) step Some tl by simp_all
    then have "all_read cs1"
      using Cons.prems(4) by (simp add: all_read_def)
    from Cons.IH[OF c1 rest tl this] res r Some show ?thesis
      by simp
  qed
qed

lemma first_entry_ok:
  assumes "first_entry extract v i ss a = (True, ss', a')" and "clean ss"
    and "list_all (reads_whole extract) (nums v i)" and "sized m a" and "i < m"
  shows "clean ss' \<and> sized m a' \<and> all_read (numbers extract v i) \<and>
     (\<forall>j. entry a' j = (if j = i then forward_entry extract v i else entry a j))"
proof -
  obtain cs ss1 where g: "get_doubles extract (nums v i) ss = (cs, ss1)"
    by (cases "get_doubles extract (nums v i) ss")
  have ok: "all_read cs"
    using assms(1) g by (auto simp: first_entry_def Let_def nums_def split: if_splits)
  have cs: "cs = numbers extract v i" and c: "clean ss1"
    using get_doubles_whole[OF assms(2,3) g ok] by (simp_all add: numbers_def)
  have nm: "take 9 (drop (Suc (Suc (11 * i))) v) = nums v i"
    by (simp add: nums_def)
  show ?thesis
    using assms(1,4,5) ok c ok[unfolded cs]
    by (auto simp: first_entry_def Let_def nm g entry_def sized_def forward_entry_def cs[symmetric])
qed

lemma second_entry_ok:
  assumes "second_entry extract v n i ss a = (True, ss', a')" and "clean ss"
    and "list_all (reads_whole extract) (nums v (i - n))" and "sized m a" and "i < m"
  shows "clean ss' \<and> sized m a' \<and>
     (\<forall>j. entry a' j = (if j = i then mirror_entry extract v (i - n) else entry a j))"
proof -
  obtain cs ss1 where g: "get_doubles extract (nums v (i - n)) ss = (cs, ss1)"
    by (cases "get_doubles extract (nums v (i - n)) ss")
  have ok: "all_read cs"
    using assms(1) g by (auto simp: second_entry_def Let_def nums_def split: if_splits)
  have cs: "cs = numbers extract v (i - n)" and c: "clean ss1"
    using get_doubles_whole[OF assms(2,3) g ok] by (simp_all add: numbers_def)
  have nm: "take 9 (drop (Suc (Suc (11 * (i - n)))) v) = nums v (i - n)"
    by (simp add: nums_def)
  show ?thesis
    using assms(1,4,5) ok c
    by (auto simp: second_entry_def Let_def nm g entry_def sized_def mirror_entry_def cs[symmetric])
qed

lemma first_loop_ok:
  "first_loop ex v n i ss a = (True, ss', a') \<Longrightarrow> clean ss \<Longrightarrow> sized m a \<Longrightarrow> n \<le> m \<Longrightarrow>
   (\<forall>e<n. list_all (reads_whole ex) (nums v e)) \<Longrightarrow>
   clean ss' \<and> sized m a' \<and> (\<forall>j. i \<le> j \<and> j < n \<longrightarrow> all_read (numbers ex v j)) \<and>
   (\<forall>j. entry a' j = (if i \<le> j \<and> j < n then forward_entry ex v j else entry a j))"
proof (induction ex v n i ss a rule: first_loop.induct)
  case (1 ex v n i ss a)
  show ?case
  proof (cases "i < n")
    case False
    with "1.prems" show ?thesis
      by (subst (asm) first_loop.simps) auto
  next
    case True
    obtain ok ss1 a1 where e: "first_entry ex v i ss a = (ok, ss1, a1)"
      by (cases "first_entry ex v i ss a")
    have ok: "ok"
      using "1.prems"(1) True e by (subst (asm) first_loop.simps) (auto split: bool.splits)
    have rec: "first_loop ex v n (Suc i) ss1 a1 = (True, ss', a')"
      using "1.prems"(1) True e ok by (subst (asm) first_loop.simps) simp
    have e2: "(True, ss1, a1) = first_entry ex v i ss a"
      using e ok by simp
    have rw: "list_all (reads_whole ex) (nums v i)"
      using "1.prems"(5) True by simp
    have step: "clean ss1 \<and> sized m a1 \<and> all_read (numbers ex v i) \<and>
        (\<forall>j. entry a1 j = (if j = i then forward_entry ex v i else entry a j))"
      using first_entry_ok[OF _ _ rw "1.prems"(3)] ok e "1.prems"(2,4) True by simp
    have ih: "clean ss' \<and> sized m a' \<and>
        (\<forall>j. Suc i \<le> j \<and> j < n \<longrightarrow> all_read (numbers ex v j)) \<and>
        (\<forall>j. entry a' j = (if Suc i \<le> j \<and> j < n then forward_entry ex v j else entry a1 j))"
      using "1.IH"[OF True e2 refl refl rec] step "1.prems"(4,5) by simp
    have ar: "all_read (numbers ex v j)" if "i \<le> j \<and> j < n" for j
    proof (cases "j = i")
      case True
      with step show ?thesis by simp
    next
      case False
      with that have "Suc i \<le> j \<and> j < n" by arith
      with ih show ?thesis by blast
    qed
    have en: "entry a' j = (if i \<le> j \<and> j < n then forward_entry ex v j else entry a j)" for j
      using step ih True by (auto simp: not_less_eq_eq)
    show ?thesis
      using ih ar en by blast
  qed
qed

lemma second_loop_ok:
  "second_loop ex v n i ss a = (True, ss', a') \<Longrightarrow> clean ss \<Longrightarrow> sized (2 * n) a \<Longrightarrow> n \<le> i \<Longrightarrow>
   (\<forall>e<n. list_all (reads_whole ex) (nums v e)) \<Longrightarrow>
   clean ss' \<and> sized (2 * n) a' \<and>
   (\<forall>j. entry a' j = (if i \<le> j \<and> j < 2 * n then mirror_entry ex v (j - n) else entry a j))"
proof (induction ex v n i ss a rule: second_loop.induct)
  case (1 ex v n i ss a)
  show ?case
  proof (cases "i < 2 * n")
    case False
    with "1.prems" show ?thesis
      by (subst (asm) second_loop.simps) auto
  next
    case True
    obtain ok ss1 a1 where e: "second_entry ex v n i ss a = (ok, ss1, a1)"
      by (cases "second_entry ex v n i ss a")
    have ok: "ok"
      using "1.prems"(1) True e by (subst (asm) second_loop.simps) (auto split: bool.splits)
    have rec: "second_loop ex v n (Suc i) ss1 a1 = (True, ss', a')"
      using "1.prems"(1) True e ok by (subst (asm) second_loop.simps) simp
    have e2: "(True, ss1, a1) = second_entry ex v n i ss a"
      using e ok by simp
    have rw: "list_all (reads_whole ex) (nums v (i - n))"
      using "1.prems"(4,5) True by simp
    have step: "clean ss1 \<and> sized (2 * n) a1 \<and>
        (\<forall>j. entry a1 j = (if j = i then mirror_entry ex v (i - n) else entry a j))"
      using second_entry_ok[OF _ _ rw "1.prems"(3)] ok e "1.prems"(2) True by simp
    have ih: "clean ss' \<and> sized (2 * n) a' \<and>
        (\<forall>j. entry a' j = (if Suc i \<le> j \<and> j < 2 * n then mirror_entry ex v (j - n) else entry a1 j))"
      using "1.IH"[OF True e2 refl refl rec] step "1.prems"(4,5) by simp
    show ?thesis
      using step ih True by (auto simp: not_less_eq_eq)
  qed
qed

lemma COptionPeriodic_SetValue_success:
  assumes "COptionPeriodic_SetValue ex name v st = Some ('''', st')" and "length v = 11 * k"
    and "\<forall>e<k. list_all (reads_whole ex) (nums v e)"
  shows "\<exists>a. st' = set_arrays (of_nat (2 * k)) a st \<and> sized (2 * k) a \<and>
     (\<forall>i<k. all_read (numbers ex v i) \<and> entry a i = forward_entry ex v i \<and>
        entry a (k + i) = mirror_entry ex v i)"
proof -
  define a0 where "a0 = \<lparr>bound = replicate (2 * k) [], donor = replicate (2 * k) [],
      center = replicate (2 * k) (new_cells 3), angles = replicate (2 * k) (new_cells 3),
      transl = replicate (2 * k) (new_cells 3)\<rparr>"
  have none: "\<not> (length v = 1 \<and> v ! 0 = ''NONE'')"
    using assms(2) by presburger
  have bv: "badValue v ''periodic'' name \<noteq> ''''"
    by (simp add: badValue_def)
  obtain ok1 ss1 a1 where l1: "first_loop ex v k 0 (ss_new []) a0 = (ok1, ss1, a1)"
    by (cases "first_loop ex v k 0 (ss_new []) a0")
  obtain ok2 ss2 a2 where l2: "second_loop ex v k k ss1 a1 = (ok2, ss2, a2)"
    by (cases "second_loop ex v k k ss1 a1")
  have run: "ok1 \<and> ok2 \<and> st' = set_arrays (of_nat (2 * k)) a2 st"
    using assms(1) none bv l1 l2
    by (auto simp: COptionPeriodic_SetValue_def Let_def assms(2) a0_def[symmetric]
        split: if_splits bool.splits)
  have s0: "sized (2 * k) a0" and c0: "clean (ss_new [])"
    by (simp_all add: a0_def sized_def clean_def ss_new_def)
  have f: "clean ss1 \<and> sized (2 * k) a1 \<and>
      (\<forall>j. 0 \<le> j \<and> j < k \<longrightarrow> all_read (numbers ex v j)) \<and>
      (\<forall>j. entry a1 j = (if 0 \<le> j \<and> j < k then forward_entry ex v j else entry a0 j))"
    using first_loop_ok[OF _ c0 s0 _ assms(3)] l1 run by simp
  have m: "clean ss2 \<and> sized (2 * k) a2 \<and>
      (\<forall>j. entry a2 j = (if k \<le> j \<and> j < 2 * k then mirror_entry ex v (j - k) else entry a1 j))"
    using second_loop_ok[OF _ _ _ _ assms(3)] l2 run f by simp
  have "\<forall>i<k. all_read (numbers ex v i) \<and> entry a2 i = forward_entry ex v i \<and>
      entry a2 (k + i) = mirror_entry ex v i"
    using f m by simp
  with run m show ?thesis by blast
qed

lemma nine_read:
  assumes "length cs = 9" and "all_read cs"
  shows "\<exists>c0 c1 c2 g0 g1 g2 t0 t1 t2.
     cs = [Some c0, Some c1, Some c2, Some g0, Some g1, Some g2, Some t0, Some t1, Some t2]"
proof -
  from assms(1) obtain x0 x1 x2 x3 x4 x5 x6 x7 x8 where
    cs: "cs = [x0, x1, x2, x3, x4, x5, x6, x7, x8]"
    by (auto simp: length_Suc_conv numeral_eq_Suc)
  with assms(2) show ?thesis
    by (auto simp: all_read_def)
qed

lemma numbers_length: "11 * e + 11 \<le> length v \<Longrightarrow> length (numbers ex v e) = 9"
  by (simp add: numbers_def nums_def)

text \<open>
  The mirrored entries. When \<^verbatim>\<open>COptionPeriodic::SetValue\<close> succeeds on an option list
  of \<open>11 k\<close> entries whose numeric tokens the extraction reads whole, it produces
  \<open>2 k\<close> periodic marker entries, and for every \<open>i < k\<close> the entry \<open>k + i\<close> has the
  bound and donor marker names of the entry \<open>i\<close> swapped, the same rotation centre, the
  rotation angles of the entry \<open>i\<close> negated and its translation negated, the angles
  being converted from degrees to radians in both halves.
\<close>

lemma COptionPeriodic_mirror_structure:
  assumes "COptionPeriodic_SetValue ex name v st = Some ('''', st')" and "length v = 11 * k"
    and "\<forall>e<k. list_all (reads_whole ex) (nums v e)"
  shows "\<exists>a. st' = set_arrays (of_nat (2 * k)) a st \<and> sized (2 * k) a \<and>
     (\<forall>i<k. bound a ! (k + i) = donor a ! i \<and> donor a ! (k + i) = bound a ! i \<and>
        center a ! (k + i) = center a ! i \<and>
        angles a ! i = map (scale deg2rad) (take 3 (drop 3 (numbers ex v i))) \<and>
        angles a ! (k + i) = map (scale (- 1)) (angles a ! i) \<and>
        transl a ! (k + i) = map (scale (- 1)) (transl a ! i))"
proof -
  from COptionPeriodic_SetValue_success[OF assms(1,2,3)] obtain a where
    a: "st' = set_arrays (of_nat (2 * k)) a st" "sized (2 * k) a" and
    en: "\<And>i. i < k \<Longrightarrow> all_read (numbers ex v i) \<and> entry a i = forward_entry ex v i \<and>
        entry a (k + i) = mirror_entry ex v i"
    by blast
  have "bound a ! (k + i) = donor a ! i \<and> donor a ! (k + i) = bound a ! i \<and>
        center a ! (k + i) = center a ! i \<and>
        angles a ! i = map (scale deg2rad) (take 3 (drop 3 (numbers ex v i))) \<and>
        angles a ! (k + i) = map (scale (- 1)) (angles a ! i) \<and>
        transl a ! (k + i) = map (scale (- 1)) (transl a ! i)"
    if i: "i < k" for i
  proof -
    have len: "length (numbers ex v i) = 9"
      using i assms(2) by (intro numbers_length) simp
    from nine_read[OF len] en[OF i] obtain c0 c1 c2 g0 g1 g2 t0 t1 t2 where
      cs: "numbers ex v i = [Some c0, Some c1, Some c2, Some g0, Some g1, Some g2, Some t0, Some t1, Some t2]"
      by blast
    have fw: "entry a i = (v ! (11 * i), v ! (11 * i + 1), [Some c0, Some c1, Some c2],
        [Some (g0 * deg2rad), Some (g1 * deg2rad), Some (g2 * deg2rad)],
        [Some t0, Some t1, Some t2])"
      using en[OF i] by (simp add: forward_entry_def cs scale_def)
    have mi: "entry a (k + i) = (v ! (11 * i + 1), v ! (11 * i), [Some c0, Some c1, Some c2],
        [Some (- (g0 * deg2rad)), Some (- (g1 * deg2rad)), Some (- (g2 * deg2rad))],
        [Some (- t0), Some (- t1), Some (- t2)])"
      using en[OF i] by (simp add: mirror_entry_def cs scale_def)
    show ?thesis
      using fw mi by (simp add: entry_def cs scale_def)
  qed
  with a show ?thesis by blast
qed

lemmas eval_defs = first_entry_def second_entry_def ss_new_def ss_put_def
      ss_get_double_def extract_decimal_def extract_signed_def isspace_def isdigit_def
      digits_value_def Let_def
      all_read_def new_cells_def scale_def numeral_2_eq_2 set_arrays_def empty_fields_def

text \<open>On the first example value, whose tokens are read whole, the second entry mirrors
  the first.\<close>

lemma periodic_example_run:
  "COptionPeriodic_SetValue extract_decimal ''MARKER_PERIODIC'' periodic_value_example empty_fields =
     Some ('''', \<lparr>size_ref = 2, marker_bound = Some [''lower'', ''upper''],
       marker_donor = Some [''upper'', ''lower''],
       rot_center = Some [[Some 1, Some 2, Some 3], [Some 1, Some 2, Some 3]],
       rot_angles = Some [[Some 0, Some 0, Some (90 * deg2rad)],
                          [Some 0, Some 0, Some (- (90 * deg2rad))]],
       translation = Some [[Some 0, Some 0, Some 0], [Some 0, Some 0, Some 0]]\<rparr>)"
  apply (simp add: COptionPeriodic_SetValue_def periodic_value_example_def Let_def)
  apply (subst first_loop.simps)
  apply (simp add: eval_defs)
  apply (subst first_loop.simps)
  apply simp
  apply (subst second_loop.simps)
  apply (simp add: eval_defs)
  apply (subst second_loop.simps)
  apply (simp add: eval_defs)
  done

text \<open>
  Claim C4. When \<^verbatim>\<open>COptionPeriodic::SetValue\<close> succeeds on an option list of \<open>11 k\<close>
  entries, the entry \<open>k + i\<close> is to have the marker names of the entry \<open>i\<close> swapped, the
  same rotation centre and the negated rotation angles and translation; the comment on
  the second loop says the same (\<^verbatim>\<open>Mirror the rotational angles and translation vector
  (rotational center does not need to move)\<close>). The function writes all its tokens into
  one stream (line 2041) and extracts one number after each, where
  \<^verbatim>\<open>COptionDouble\<close> and \<^verbatim>\<open>COptionDoubleArray\<close> open a stream of its own for every
  token. What an extraction leaves of a token is read by the next one. Of the token
  \<open>1-2\<close> the first extraction takes \<open>1\<close> and leaves \<open>-2\<close>, every later extraction
  returns the number before its own token, and the second loop starts with the \<open>10\<close>
  that the first loop left. The call returns the empty string, no extraction having
  failed, and the second entry is no mirror of the first: its centre is \<open>(10, 1, -2)\<close>
  where the first has \<open>(1, -2, 3)\<close>, its angles are those of \<open>(-3, -4, -5)\<close> degrees where
  the first has those of \<open>(4, 5, 6)\<close>, its translation is \<open>(-6, -7, -8)\<close> where the first
  has \<open>(7, 8, 9)\<close>.
\<close>

theorem COptionPeriodic_leftover_breaks_mirror:
  "COptionPeriodic_SetValue extract_signed ''MARKER_PERIODIC'' periodic_value_glued empty_fields =
     Some ('''', \<lparr>size_ref = 2, marker_bound = Some [''lower'', ''upper''],
       marker_donor = Some [''upper'', ''lower''],
       rot_center = Some [[Some 1, Some (- 2), Some 3], [Some 10, Some 1, Some (- 2)]],
       rot_angles = Some [[Some (4 * deg2rad), Some (5 * deg2rad), Some (6 * deg2rad)],
                          [Some (- (3 * deg2rad)), Some (- (4 * deg2rad)), Some (- (5 * deg2rad))]],
       translation = Some [[Some 7, Some 8, Some 9], [Some (- 6), Some (- 7), Some (- 8)]]\<rparr>)"
  apply (simp add: COptionPeriodic_SetValue_def periodic_value_glued_def Let_def)
  apply (subst first_loop.simps)
  apply (simp add: eval_defs)
  apply (subst first_loop.simps)
  apply simp
  apply (subst second_loop.simps)
  apply (simp add: eval_defs)
  apply (subst second_loop.simps)
  apply (simp add: eval_defs)
  done

theorem COptionPeriodic_leftover_breaks_mirror_witness:
  "\<exists>st c. COptionPeriodic_SetValue extract_signed ''MARKER_PERIODIC'' periodic_value_glued
       empty_fields = Some ('''', st) \<and>
     length periodic_value_glued = 11 * 1 \<and> rot_center st = Some c \<and>
     c ! 0 = [Some 1, Some (- 2), Some 3] \<and> c ! 1 = [Some 10, Some 1, Some (- 2)] \<and>
     c ! 1 \<noteq> c ! 0"
  using COptionPeriodic_leftover_breaks_mirror by (simp add: periodic_value_glued_def)

end
